theory Spec2Isabelle
  imports Complex_Main "HOL-Library.Multiset"
begin

section \<open>The home page of the film statistics dashboard (\<open>src/home_page.py\<close>)\<close>

text \<open>
  The module reshapes a few small tables (watched films, countries, genres, persons,
  award lists) and hands the result to a charting library. The embedding below keeps
  the tables, the reshaping and the arguments given to the chart constructors; the
  drawing itself is outside the module.
\<close>

subsection \<open>Exceptions\<close>

text \<open>
  The module defines no exception of its own. The ones below are raised by the
  interpreter or by the table and chart libraries on malformed input, the last one by
  the page framework when a widget is drawn twice, and travel up uncaught.
\<close>

datatype error = IndexError | KeyError | TypeError | ValueError | DuplicateElementId

fun map_err :: "('a \<Rightarrow> error + 'b) \<Rightarrow> 'a list \<Rightarrow> error + 'b list" where
  "map_err f [] = Inr []"
| "map_err f (x # xs) =
     (case f x of
        Inl e \<Rightarrow> Inl e
      | Inr y \<Rightarrow> (case map_err f xs of Inl e \<Rightarrow> Inl e | Inr ys \<Rightarrow> Inr (y # ys)))"

subsection \<open>Tables\<close>

text \<open>
  A cell of a \<open>DataFrame\<close> is a missing value, a number or a string. Numbers are
  rationals: every finite integer and floating-point value is one, and the module only
  compares them. A table is its list of column names and its rows; a row maps column
  names to cells, and a name it does not bind reads as the missing value. Strings are
  lists of 8-bit characters; the texts the module itself writes into its figures are
  ASCII.
\<close>

datatype cell = NaN | Num rat | Str string

type_synonym row = "(string \<times> cell) list"

record frame =
  columns :: "string list"
  rows :: "row list"

definition cell_at :: "row \<Rightarrow> string \<Rightarrow> cell" where
  "cell_at r c = (case map_of r c of Some v \<Rightarrow> v | None \<Rightarrow> NaN)"

text \<open>\<open>df[c]\<close>: the cells of a column, \<open>KeyError\<close> when the table has no such column.\<close>

definition column :: "frame \<Rightarrow> string \<Rightarrow> error + cell list" where
  "column df c =
     (if c \<in> set (columns df) then Inr (map (\<lambda>r. cell_at r c) (rows df))
      else Inl KeyError)"

text \<open>\<open>series == val\<close>, cell by cell: a missing value is equal to nothing.\<close>

definition cell_eq :: "cell \<Rightarrow> cell \<Rightarrow> bool" where
  "cell_eq a b = (a \<noteq> NaN \<and> a = b)"

text \<open>
  The order in which \<open>groupby\<close> lists its keys: numbers by value, strings by code
  point, numbers before strings.
\<close>

fun str_less :: "string \<Rightarrow> string \<Rightarrow> bool" where
  "str_less [] [] = False"
| "str_less [] (y # ys) = True"
| "str_less (x # xs) [] = False"
| "str_less (x # xs) (y # ys) =
     ((of_char x :: nat) < of_char y \<or> (x = y \<and> str_less xs ys))"

fun cell_less :: "cell \<Rightarrow> cell \<Rightarrow> bool" where
  "cell_less (Num a) (Num b) = (a < b)"
| "cell_less (Num a) (Str t) = True"
| "cell_less (Str s) (Str t) = str_less s t"
| "cell_less a b = False"

definition pair_less :: "cell \<times> cell \<Rightarrow> cell \<times> cell \<Rightarrow> bool" where
  "pair_less p q = (cell_less (fst p) (fst q) \<or> (fst p = fst q \<and> cell_less (snd p) (snd q)))"

fun insert_by :: "('k \<Rightarrow> 'k \<Rightarrow> bool) \<Rightarrow> 'k \<Rightarrow> 'k list \<Rightarrow> 'k list" where
  "insert_by lt k [] = [k]"
| "insert_by lt k (x # xs) =
     (if lt x k then x # insert_by lt k xs else k # x # xs)"

definition sort_by :: "('k \<Rightarrow> 'k \<Rightarrow> bool) \<Rightarrow> 'k list \<Rightarrow> 'k list" where
  "sort_by lt ks = foldr (insert_by lt) ks []"

text \<open>
  \<open>groupby(...).size()\<close> over the keys of the rows: rows whose key has a missing
  value are left out (the library's default \<open>dropna=True\<close>), the distinct keys are
  listed in order, each with the number of rows that carry it.
\<close>

definition group_sizes ::
  "('k \<Rightarrow> 'k \<Rightarrow> bool) \<Rightarrow> ('k \<Rightarrow> bool) \<Rightarrow> 'k list \<Rightarrow> ('k \<times> nat) list" where
  "group_sizes lt missing keys =
     (let kept = filter (\<lambda>k. \<not> missing k) keys
      in map (\<lambda>k. (k, count_list kept k)) (sort_by lt (remdups kept)))"

text \<open>
  \<open>df.groupby(value).size().reset_index(name="number")\<close> (line 40):
  \<open>reset_index\<close> refuses to add a second column called "number".
\<close>

definition groupby_size :: "frame \<Rightarrow> string \<Rightarrow> error + (cell \<times> nat) list" where
  "groupby_size df value =
     (case column df value of
        Inl e \<Rightarrow> Inl e
      | Inr keys \<Rightarrow>
          if value = ''number'' then Inl ValueError
          else Inr (group_sizes cell_less (\<lambda>c. c = NaN) keys))"

text \<open>The same over a pair of columns (lines 324-328).\<close>

definition groupby_size2 ::
  "frame \<Rightarrow> string \<Rightarrow> string \<Rightarrow> error + ((cell \<times> cell) \<times> nat) list" where
  "groupby_size2 df a b =
     (case column df a of
        Inl e \<Rightarrow> Inl e
      | Inr xs \<Rightarrow>
          (case column df b of
             Inl e \<Rightarrow> Inl e
           | Inr ys \<Rightarrow>
               if a = ''number'' \<or> b = ''number'' then Inl ValueError
               else Inr (group_sizes pair_less (\<lambda>p. fst p = NaN \<or> snd p = NaN) (zip xs ys))))"

subsection \<open>Strings\<close>

text \<open>
  Strings are lists of characters. The functions of the interpreter and of the libraries
  whose result depends on floating-point arithmetic or on a regular-expression engine are
  parameters of the model: how a number prints, the mean of a column, a number printed
  to three significant digits, and the search behind \<open>Series.str.contains\<close>.
\<close>

record pylib =
  fmt_num :: "rat \<Rightarrow> string"
  series_mean :: "cell list \<Rightarrow> error + cell"
  fmt_3g :: "cell \<Rightarrow> string"
  re_search :: "string \<Rightarrow> string \<Rightarrow> bool"

text \<open>\<open>str(x)\<close> and \<open>f"{x}"\<close> of a cell.\<close>

definition py_str :: "pylib \<Rightarrow> cell \<Rightarrow> string" where
  "py_str lib c = (case c of NaN \<Rightarrow> ''nan'' | Num q \<Rightarrow> fmt_num lib q | Str s \<Rightarrow> s)"

text \<open>\<open>f"{n}"\<close> of a length: its decimal digits.\<close>

definition digit_char :: "nat \<Rightarrow> char" where
  "digit_char d = ''0123456789'' ! d"

fun str_nat :: "nat \<Rightarrow> string" where
  "str_nat n =
     (if n < 10 then [digit_char n] else str_nat (n div 10) @ [digit_char (n mod 10)])"

declare str_nat.simps [simp del]

text \<open>\<open>sep.join(xs)\<close>; an item that is not a string raises \<open>TypeError\<close>.\<close>

fun join :: "string \<Rightarrow> string list \<Rightarrow> string" where
  "join sep [] = []"
| "join sep [s] = s"
| "join sep (s # t # ss) = s @ sep @ join sep (t # ss)"

fun the_strs :: "cell list \<Rightarrow> error + string list" where
  "the_strs [] = Inr []"
| "the_strs (Str s # cs) =
     (case the_strs cs of Inl e \<Rightarrow> Inl e | Inr ss \<Rightarrow> Inr (s # ss))"
| "the_strs (c # cs) = Inl TypeError"

text \<open>\<open>sub in s\<close> on strings.\<close>

fun starts_with :: "string \<Rightarrow> string \<Rightarrow> bool" where
  "starts_with [] s = True"
| "starts_with (p # ps) [] = False"
| "starts_with (p # ps) (c # cs) = (p = c \<and> starts_with ps cs)"

fun str_in :: "string \<Rightarrow> string \<Rightarrow> bool" where
  "str_in sub [] = (sub = [])"
| "str_in sub (c # cs) = (starts_with sub (c # cs) \<or> str_in sub cs)"

text \<open>
  \<open>s.title()\<close> on ASCII text: a letter that follows a letter is lowered, any other
  letter is raised; other characters are kept.
\<close>

definition ascii_lower :: string where
  "ascii_lower = ''abcdefghijklmnopqrstuvwxyz''"

definition ascii_upper :: string where
  "ascii_upper = ''ABCDEFGHIJKLMNOPQRSTUVWXYZ''"

definition to_upper :: "char \<Rightarrow> char" where
  "to_upper c = (case map_of (zip ascii_lower ascii_upper) c of Some u \<Rightarrow> u | None \<Rightarrow> c)"

definition to_lower :: "char \<Rightarrow> char" where
  "to_lower c = (case map_of (zip ascii_upper ascii_lower) c of Some l \<Rightarrow> l | None \<Rightarrow> c)"

definition is_cased :: "char \<Rightarrow> bool" where
  "is_cased c = (c \<in> set ascii_lower \<or> c \<in> set ascii_upper)"

fun title_from :: "bool \<Rightarrow> string \<Rightarrow> string" where
  "title_from prev [] = []"
| "title_from prev (c # cs) =
     (if prev then to_lower c else to_upper c) # title_from (is_cased c) cs"

definition py_title :: "string \<Rightarrow> string" where
  "py_title s = title_from False s"

text \<open>\<open>a or b\<close> on strings: the empty string is false.\<close>

definition py_or :: "string \<Rightarrow> string \<Rightarrow> string" where
  "py_or a b = (if a \<noteq> [] then a else b)"

text \<open>
  \<open>categories + "s" if categories[-1] != "y" else categories[:-1] + "ies"\<close>
  (lines 107-109). Indexing the empty string with \<open>[-1]\<close> raises \<open>IndexError\<close>.
\<close>

definition plural :: "string \<Rightarrow> error + string" where
  "plural categories =
     (if categories = [] then Inl IndexError
      else if last categories \<noteq> CHR ''y'' then Inr (categories @ ''s'')
      else Inr (butlast categories @ ''ies''))"

subsection \<open>Figures\<close>

text \<open>
  What the builders hand to the charting library: the table to draw and the keyword
  arguments that the source sets. Every builder passes \<open>hover_data\<close> with all its
  columns switched off; that argument is constant and is left out of the records.
\<close>

record hist_row =
  hr_x :: cell
  hr_number :: nat
  hr_hover_text :: string

record vline =
  vl_x :: cell
  vl_line_dash :: string
  vl_line_color :: string
  vl_annotation_text :: string
  vl_annotation_position :: string

record 'd bar_fig =
  bf_data :: 'd
  bf_x :: string
  bf_y :: string
  bf_title :: string
  bf_height :: nat
  bf_hover_name :: string
  bf_xaxis_title :: string
  bf_yaxis_title :: string
  bf_tickangle :: "int option"
  bf_vline :: "vline option"
  bf_xaxis_range :: "(int \<times> int) option"

record pie_row =
  pr_category :: string
  pr_number :: nat
  pr_hover_text :: string

record pie_fig =
  pf_data :: "pie_row list"
  pf_values :: string
  pf_names :: string
  pf_hole :: rat
  pf_title :: string
  pf_hover_name :: string

record scatter_fig =
  sf_data :: "((cell \<times> cell) \<times> nat) list"
  sf_x :: string
  sf_y :: string
  sf_size :: string
  sf_size_max :: nat
  sf_title :: string
  sf_hover_name :: string
  sf_height :: nat
  sf_xaxis_range :: "int \<times> int"
  sf_yaxis_range :: "int \<times> int"
  sf_xaxis_title :: string
  sf_yaxis_title :: string

subsection \<open>Selecting rows and adding a column\<close>

text \<open>\<open>df[mask]\<close>, the mask given as a test on the row.\<close>

definition select :: "(row \<Rightarrow> bool) \<Rightarrow> frame \<Rightarrow> frame" where
  "select p df = df\<lparr>rows := filter p (rows df)\<rparr>"

text \<open>\<open>row[c]\<close> for a row of the table \<open>df\<close>.\<close>

definition row_get :: "frame \<Rightarrow> row \<Rightarrow> string \<Rightarrow> error + cell" where
  "row_get df r c = (if c \<in> set (columns df) then Inr (cell_at r c) else Inl KeyError)"

definition set_cell :: "string \<Rightarrow> cell \<Rightarrow> row \<Rightarrow> row" where
  "set_cell c v r = (c, v) # filter (\<lambda>p. fst p \<noteq> c) r"

text \<open>\<open>df[c] = series\<close>: the column is replaced, or added last when it is new.\<close>

definition assign_column :: "frame \<Rightarrow> string \<Rightarrow> cell list \<Rightarrow> frame" where
  "assign_column df c vs =
     \<lparr>columns = (if c \<in> set (columns df) then columns df else columns df @ [c]),
      rows = map (\<lambda>(r, v). set_cell c v r) (zip (rows df) vs)\<rparr>"

text \<open>\<open>series.isin(values)\<close>, cell by cell; here a missing value matches a missing value.\<close>

definition isin :: "cell \<Rightarrow> cell list \<Rightarrow> bool" where
  "isin c vs = (c \<in> set vs)"

subsection \<open>\<open>create_hist_numbers\<close> (lines 11-74)\<close>

text \<open>
  The function applied to every value of the count table (lines 43-45): the count is
  looked up in the count table, the titles are those of the first five films with that
  value.
\<close>

definition hist_numbers_hover ::
  "pylib \<Rightarrow> frame \<Rightarrow> string \<Rightarrow> (cell \<times> nat) list \<Rightarrow> cell \<Rightarrow> error + string" where
  "hist_numbers_hover lib df_films value df_count val =
     (case filter (\<lambda>g. cell_eq (fst g) val) df_count of
        [] \<Rightarrow> Inl IndexError
      | g # gs \<Rightarrow>
          (case column (select (\<lambda>r. cell_eq (cell_at r value) val) df_films) ''title'' of
             Inl e \<Rightarrow> Inl e
           | Inr titles \<Rightarrow>
               (case the_strs (take 5 titles) of
                  Inl e \<Rightarrow> Inl e
                | Inr ts \<Rightarrow>
                    Inr (py_title value @ '': '' @ py_str lib val @ ''<br>Films: ''
                         @ str_nat (snd g) @ ''<br>'' @ join ''<br>'' ts))))"

text \<open>Lines 61-69: the dashed line at the mean, when asked for.\<close>

definition mean_line :: "pylib \<Rightarrow> frame \<Rightarrow> string \<Rightarrow> bool \<Rightarrow> error + vline option" where
  "mean_line lib df_films value mean =
     (if mean then
        (case column df_films value of
           Inl e \<Rightarrow> Inl e
         | Inr xs \<Rightarrow>
             (case series_mean lib xs of
                Inl e \<Rightarrow> Inl e
              | Inr mean_value \<Rightarrow>
                  Inr (Some \<lparr>vl_x = mean_value, vl_line_dash = ''dash'',
                             vl_line_color = ''#0068C9'',
                             vl_annotation_text = ''Mean: '' @ fmt_3g lib mean_value,
                             vl_annotation_position = ''top''\<rparr>)))
      else Inr None)"

text \<open>
  The count table of line 40 gets its \<open>hover_text\<close> column (line 42); when the grouping
  column is itself called "hover_text" the assignment replaces it.
\<close>

definition create_hist_numbers ::
  "pylib \<Rightarrow> frame \<Rightarrow> string \<Rightarrow> bool \<Rightarrow> string option \<Rightarrow> error + (hist_row list) bar_fig" where
  "create_hist_numbers lib df_films value mean hist_title =
     (case groupby_size df_films value of
        Inl e \<Rightarrow> Inl e
      | Inr df_count \<Rightarrow>
          (case map_err (hist_numbers_hover lib df_films value df_count) (map fst df_count) of
             Inl e \<Rightarrow> Inl e
           | Inr hovers \<Rightarrow>
               (case mean_line lib df_films value mean of
                  Inl e \<Rightarrow> Inl e
                | Inr line \<Rightarrow>
                    Inr \<lparr>bf_data =
                           map (\<lambda>(g, h). \<lparr>hr_x = (if value = ''hover_text'' then Str h else fst g),
                                           hr_number = snd g, hr_hover_text = h\<rparr>)
                             (zip df_count hovers),
                         bf_x = value,
                         bf_y = ''number'',
                         bf_title =
                           py_or (case hist_title of None \<Rightarrow> [] | Some t \<Rightarrow> t)
                             (''Films by '' @ value),
                         bf_height = (if \<not> str_in ''rating'' value then 500 else 400),
                         bf_hover_name = ''hover_text'',
                         bf_xaxis_title = py_title value,
                         bf_yaxis_title = ''Number of films'',
                         bf_tickangle = None,
                         bf_vline = line,
                         bf_xaxis_range =
                           (if str_in ''rating'' value then Some (0, 5) else None)\<rparr>)))"

subsection \<open>\<open>create_hist_categories\<close> (lines 77-137)\<close>

text \<open>
  The function applied to every row of the category table (lines 111-117); \<open>id_col\<close>
  is the source's \<open>id_\<close>. The films of a
  category are those whose cell in the plural column matches the row's identifier; a
  cell there that is not a string leaves a hole in the mask, and the selection raises.
\<close>

definition contains_mask :: "pylib \<Rightarrow> string \<Rightarrow> cell list \<Rightarrow> error + bool list" where
  "contains_mask lib pat cs =
     map_err (\<lambda>c. case c of Str s \<Rightarrow> Inr (re_search lib pat s) | _ \<Rightarrow> Inl ValueError) cs"

definition hist_categories_hover ::
  "pylib \<Rightarrow> string \<Rightarrow> string \<Rightarrow> frame \<Rightarrow> string \<Rightarrow> frame \<Rightarrow> row \<Rightarrow> error + string" where
  "hist_categories_hover lib categories plural_word df_films id_col df_categories r =
     (case row_get df_categories r categories of
        Inl e \<Rightarrow> Inl e
      | Inr name \<Rightarrow>
     (case row_get df_categories r ''number'' of
        Inl e \<Rightarrow> Inl e
      | Inr number \<Rightarrow>
     (case column df_films plural_word of
        Inl e \<Rightarrow> Inl e
      | Inr memberships \<Rightarrow>
     (case row_get df_categories r id_col of
        Inl e \<Rightarrow> Inl e
      | Inr ident \<Rightarrow>
     (case contains_mask lib (py_str lib ident) memberships of
        Inl e \<Rightarrow> Inl e
      | Inr hits \<Rightarrow>
     (case column (df_films\<lparr>rows := map fst (filter snd (zip (rows df_films) hits))\<rparr>) ''title'' of
        Inl e \<Rightarrow> Inl e
      | Inr titles \<Rightarrow>
     (case the_strs (take 5 titles) of
        Inl e \<Rightarrow> Inl e
      | Inr ts \<Rightarrow>
          Inr (py_title categories @ '': '' @ py_str lib name @ ''<br>Films: ''
               @ py_str lib number @ ''<br>'' @ join ''<br>'' ts))))))))"

text \<open>
  The builder adds the \<open>hover_text\<close> column to the caller's table; the figure holds the
  table with that column. The chart constructor refuses an axis that is not a column.
  On a category table without rows the function of lines 111-117 is never called; the
  model then adds an empty column.
\<close>

definition create_hist_categories ::
  "pylib \<Rightarrow> frame \<Rightarrow> string \<Rightarrow> frame \<Rightarrow> string \<Rightarrow> error + frame bar_fig" where
  "create_hist_categories lib df_categories categories df_films id_col =
     (case plural categories of
        Inl e \<Rightarrow> Inl e
      | Inr plural_word \<Rightarrow>
          (case map_err (hist_categories_hover lib categories plural_word df_films id_col df_categories)
                  (rows df_categories) of
             Inl e \<Rightarrow> Inl e
           | Inr hovers \<Rightarrow>
               (let df = assign_column df_categories ''hover_text'' (map Str hovers)
                in if categories \<notin> set (columns df) \<or> ''number'' \<notin> set (columns df)
                   then Inl ValueError
                   else Inr \<lparr>bf_data = df,
                             bf_x = categories,
                             bf_y = ''number'',
                             bf_title = ''Films by '' @ categories,
                             bf_height = 500,
                             bf_hover_name = ''hover_text'',
                             bf_xaxis_title = py_title categories,
                             bf_yaxis_title = ''Number of films'',
                             bf_tickangle = Some 315,
                             bf_vline = None,
                             bf_xaxis_range = None\<rparr>)))"

subsection \<open>The progression pies (lines 193-306)\<close>

text \<open>
  The tooltip of one slice (lines 220-228 and 276-284, four times the same expression):
  \<open>f"Number: {len(xs)}<br>" + "<br>".join(map(str, xs[:5])) or "None"\<close>. The sum
  binds tighter than \<open>or\<close>.
\<close>

definition tooltip :: "pylib \<Rightarrow> cell list \<Rightarrow> string" where
  "tooltip lib xs =
     py_or (''Number: '' @ str_nat (length xs) @ ''<br>''
            @ join ''<br>'' (map (py_str lib) (take 5 xs)))
       ''None''"

definition progression_pie :: "pylib \<Rightarrow> string \<Rightarrow> cell list \<Rightarrow> cell list \<Rightarrow> pie_fig" where
  "progression_pie lib title watched not_watched =
     \<lparr>pf_data =
        [\<lparr>pr_category = ''Watched'', pr_number = length watched,
          pr_hover_text = tooltip lib watched\<rparr>,
         \<lparr>pr_category = ''Not watched'', pr_number = length not_watched,
          pr_hover_text = tooltip lib not_watched\<rparr>],
      pf_values = ''number'',
      pf_names = ''category'',
      pf_hole = 6 / 10,
      pf_title = title,
      pf_hover_name = ''hover_text''\<rparr>"

text \<open>
  \<open>create_progression\<close>: the award table is the one read from the award's file
  (line 212); the file name and the reading of the file are outside the model. The two
  selections of lines 214-217 are the rows whose identifier is among the film
  identifiers and the rows whose identifier is not.
\<close>

definition watched_awards :: "frame \<Rightarrow> frame \<Rightarrow> error + frame" where
  "watched_awards df_award df_films =
     (case column df_award ''id'' of
        Inl e \<Rightarrow> Inl e
      | Inr award_ids \<Rightarrow>
          (case column df_films ''id'' of
             Inl e \<Rightarrow> Inl e
           | Inr film_ids \<Rightarrow> Inr (select (\<lambda>r. isin (cell_at r ''id'') film_ids) df_award)))"

definition not_watched_awards :: "frame \<Rightarrow> frame \<Rightarrow> error + frame" where
  "not_watched_awards df_award df_films =
     (case column df_award ''id'' of
        Inl e \<Rightarrow> Inl e
      | Inr award_ids \<Rightarrow>
          (case column df_films ''id'' of
             Inl e \<Rightarrow> Inl e
           | Inr film_ids \<Rightarrow> Inr (select (\<lambda>r. \<not> isin (cell_at r ''id'') film_ids) df_award)))"

definition create_progression :: "pylib \<Rightarrow> frame \<Rightarrow> string \<Rightarrow> frame \<Rightarrow> error + pie_fig" where
  "create_progression lib df_award title df_films =
     (case watched_awards df_award df_films of
        Inl e \<Rightarrow> Inl e
      | Inr w \<Rightarrow>
          (case column w ''title'' of
             Inl e \<Rightarrow> Inl e
           | Inr watched \<Rightarrow>
               (case not_watched_awards df_award df_films of
                  Inl e \<Rightarrow> Inl e
                | Inr n \<Rightarrow>
                    (case column n ''title'' of
                       Inl e \<Rightarrow> Inl e
                     | Inr not_watched \<Rightarrow>
                         Inr (progression_pie lib title watched not_watched)))))"

definition create_progression_countries :: "pylib \<Rightarrow> frame \<Rightarrow> cell list \<Rightarrow> error + pie_fig" where
  "create_progression_countries lib df_countries countries_not_watched =
     (case column df_countries ''country'' of
        Inl e \<Rightarrow> Inl e
      | Inr watched \<Rightarrow>
          Inr (progression_pie lib ''Countries with a watched film'' watched
                 countries_not_watched))"

subsection \<open>\<open>create_scatter_ratings\<close> (lines 309-359)\<close>

definition create_scatter_ratings :: "frame \<Rightarrow> error + scatter_fig" where
  "create_scatter_ratings df_films =
     (case groupby_size2 df_films ''press rating'' ''spectator rating'' of
        Inl e \<Rightarrow> Inl e
      | Inr df_count \<Rightarrow>
          Inr \<lparr>sf_data = df_count,
               sf_x = ''press rating'',
               sf_y = ''spectator rating'',
               sf_size = ''number'',
               sf_size_max = 5,
               sf_title = ''Spectator ratings in function of press ratings'',
               sf_hover_name = ''number'',
               sf_height = 400,
               sf_xaxis_range = (0, 5),
               sf_yaxis_range = (0, 5),
               sf_xaxis_title = ''Press Rating'',
               sf_yaxis_title = ''Spectator Rating''\<rparr>)"

subsection \<open>\<open>create_persons\<close> (lines 362-418)\<close>

text \<open>
  The class \<open>Person\<close> lives in another module; its constructor and the two methods the
  grid calls are parameters. \<open>st.session_state\<close> is a dictionary from strings to
  objects that the framework keeps for the whole visit. A run of the page script also
  leaves widgets on the page and ends normally, by a page switch or by an exception.
  The field \<open>constructed\<close> is a ghost: it lists the identifiers \<open>Person\<close> was called
  with, oldest first.
\<close>

record 'p person_api =
  new_person :: "cell \<Rightarrow> 'p"
  get_name :: "'p \<Rightarrow> string"
  get_image :: "'p \<Rightarrow> string"

datatype widget = Button string | Markdown string

datatype outcome = Running | Switched string | Raised error

record 'p run =
  session_state :: "string \<rightharpoonup> 'p"
  constructed :: "cell list"
  widgets :: "widget list"
  outcome :: outcome

definition person_key :: "pylib \<Rightarrow> cell \<Rightarrow> string" where
  "person_key lib ident = ''person_'' @ py_str lib ident"

text \<open>Lines 385-387: the object is built and stored only when the key is absent.\<close>

definition cache_person :: "pylib \<Rightarrow> 'p person_api \<Rightarrow> cell \<Rightarrow> 'p run \<Rightarrow> 'p run" where
  "cache_person lib api ident s =
     (case session_state s (person_key lib ident) of
        None \<Rightarrow>
          s\<lparr>session_state := (session_state s)(person_key lib ident \<mapsto> new_person api ident),
            constructed := constructed s @ [ident]\<rparr>
      | Some cached \<Rightarrow> s)"

text \<open>
  One cell of the grid (lines 384-418); \<open>clicked\<close> tells which button was pressed.
  The button is drawn without a key (lines 392-396), so the framework identifies it by
  its label and its other arguments, which are the same for every button of the grid: a
  label that is already on the page of this run raises \<open>StreamlitDuplicateElementId\<close>
  and ends the run, after the cache has been written.
\<close>

definition person_cell ::
  "pylib \<Rightarrow> 'p person_api \<Rightarrow> (string \<Rightarrow> bool) \<Rightarrow> frame \<Rightarrow> row \<Rightarrow> 'p run \<Rightarrow> 'p run" where
  "person_cell lib api clicked people r s =
     (case row_get people r ''id'' of
        Inl e \<Rightarrow> s\<lparr>outcome := Raised e\<rparr>
      | Inr ident \<Rightarrow>
          (let s1 = cache_person lib api ident s
           in case session_state s1 (person_key lib ident) of
                None \<Rightarrow> s1\<lparr>outcome := Raised KeyError\<rparr>
              | Some person \<Rightarrow>
                  if Button (get_name api person) \<in> set (widgets s1)
                  then s1\<lparr>outcome := Raised DuplicateElementId\<rparr>
                  else
                  (let s2 = s1\<lparr>widgets := widgets s1 @
                               [Button (get_name api person),
                                Markdown (''<div style='' @ [CHR 39] @ ''text-align: center;''
                                          @ [CHR 39] @ ''><img src='' @ [CHR 39]
                                          @ get_image api person
                                          @ [CHR 39] @ '' height='' @ [CHR 39] @ ''200''
                                          @ [CHR 39] @ ''></div>'')]\<rparr>
                   in case row_get people r ''number'' of
                        Inl e \<Rightarrow> s2\<lparr>outcome := Raised e\<rparr>
                      | Inr number \<Rightarrow>
                          (let s3 = s2\<lparr>widgets := widgets s2 @
                                       [Markdown (''<p style='' @ [CHR 39]
                                                  @ ''text-align: center;'' @ [CHR 39] @ ''>''
                                                  @ py_str lib number @ '' films</p>'')]\<rparr>
                           in if clicked (get_name api person)
                              then s3\<lparr>session_state := (session_state s3)(''person'' \<mapsto> person),
                                      outcome := Switched ''actor_page.py''\<rparr>
                              else s3))))"

text \<open>
  The two loops of lines 380-383 visit the positions \<open>i + j\<close> below the number of
  people, \<open>i\<close> in steps of three and \<open>j\<close> from 0 to 2.
\<close>

definition grid_positions :: "nat \<Rightarrow> nat list" where
  "grid_positions n =
     concat (map (\<lambda>i. filter (\<lambda>k. k < n) (map (\<lambda>j. i + j) [0..<3]))
               (map (\<lambda>q. q * 3) [0..<(n + 2) div 3]))"

definition create_persons ::
  "pylib \<Rightarrow> 'p person_api \<Rightarrow> (string \<Rightarrow> bool) \<Rightarrow> frame \<Rightarrow> 'p run \<Rightarrow> 'p run" where
  "create_persons lib api clicked df_persons s =
     (let people = df_persons\<lparr>rows := take 9 (rows df_persons)\<rparr>
      in fold (\<lambda>k s'. if outcome s' = Running
                       then person_cell lib api clicked people (rows people ! k) s'
                       else s')
           (grid_positions (length (rows people))) s)"

text \<open>
  A visit: the framework runs the page script again on every interaction, with a clean
  page and the session state of the run before. Each run draws a person grid from the
  table and the button presses it is given.
\<close>

fun reruns ::
  "pylib \<Rightarrow> 'p person_api \<Rightarrow> (frame \<times> (string \<Rightarrow> bool)) list \<Rightarrow> 'p run \<Rightarrow> 'p run" where
  "reruns lib api [] s = s"
| "reruns lib api ((df_persons, clicked) # rs) s =
     reruns lib api rs
       (create_persons lib api clicked df_persons (s\<lparr>widgets := [], outcome := Running\<rparr>))"

subsection \<open>The country table of \<open>create_home\<close> (lines 477-483)\<close>

text \<open>
  \<open>sort_values("number", ascending=False)\<close>: largest first, missing values last. The
  library does not fix the order of rows with equal counts; the model keeps their order.
  A column that mixes numbers and strings cannot be compared.
\<close>

definition is_num :: "cell \<Rightarrow> bool" where
  "is_num c = (case c of Num q \<Rightarrow> True | _ \<Rightarrow> False)"

definition is_str :: "cell \<Rightarrow> bool" where
  "is_str c = (case c of Str t \<Rightarrow> True | _ \<Rightarrow> False)"

definition desc_before :: "string \<Rightarrow> row \<Rightarrow> row \<Rightarrow> bool" where
  "desc_before c r1 r2 =
     (cell_less (cell_at r2 c) (cell_at r1 c) \<or> (cell_at r1 c \<noteq> NaN \<and> cell_at r2 c = NaN))"

definition sort_values_desc :: "frame \<Rightarrow> string \<Rightarrow> error + frame" where
  "sort_values_desc df c =
     (case column df c of
        Inl e \<Rightarrow> Inl e
      | Inr cs \<Rightarrow>
          if list_ex is_num cs \<and> list_ex is_str cs then Inl TypeError
          else Inr (df\<lparr>rows := sort_by (desc_before c) (rows df)\<rparr>))"

text \<open>
  The table read from the countries file is the argument. The result is the list of
  names of the countries with count 0 and the table of the other countries, which the
  country histogram, the map and the country pie are drawn from.
\<close>

definition home_countries :: "frame \<Rightarrow> error + (cell list \<times> frame)" where
  "home_countries csv =
     (case sort_values_desc csv ''number'' of
        Inl e \<Rightarrow> Inl e
      | Inr df_countries \<Rightarrow>
          (case column (select (\<lambda>r. cell_eq (cell_at r ''number'') (Num 0)) df_countries)
                  ''country'' of
             Inl e \<Rightarrow> Inl e
           | Inr countries_not_watched \<Rightarrow>
               Inr (countries_not_watched,
                    select (\<lambda>r. \<not> cell_eq (cell_at r ''number'') (Num 0)) df_countries)))"

subsection \<open>Vocabulary of the properties\<close>

text \<open>
  A hover text shows the first titles of a list when it is a header followed by the
  first five titles of the list (all of them when there are fewer), joined by line breaks.
\<close>

definition shows_first_five :: "pylib \<Rightarrow> string \<Rightarrow> string \<Rightarrow> cell list \<Rightarrow> bool" where
  "shows_first_five lib text header titles =
     (text = header @ join ''<br>'' (map (py_str lib) (take 5 titles))
      \<and> length (take 5 titles) \<le> 5)"

text \<open>The titles of the rows of a table that pass a test, in row order.\<close>

definition titles_where :: "frame \<Rightarrow> (row \<Rightarrow> bool) \<Rightarrow> cell list" where
  "titles_where df p = map (\<lambda>r. cell_at r ''title'') (filter p (rows df))"

text \<open>
  How the session state may change between two moments of a visit: \<open>Person\<close> was
  called for new identifiers only, each at most once, each with no entry under its key
  before and its object under the key afterwards; no entry other than the selected person
  has changed; no entry has disappeared.
\<close>

definition cache_grows :: "pylib \<Rightarrow> 'p person_api \<Rightarrow> 'p run \<Rightarrow> 'p run \<Rightarrow> bool" where
  "cache_grows lib api s s' =
     ((\<exists>new. constructed s' = constructed s @ new \<and> distinct new
          \<and> (\<forall>ident \<in> set new.
                 session_state s (person_key lib ident) = None
               \<and> session_state s' (person_key lib ident) = Some (new_person api ident)))
      \<and> (\<forall>k v. k \<noteq> ''person'' \<longrightarrow> session_state s k = Some v \<longrightarrow> session_state s' k = Some v)
      \<and> (\<forall>k. session_state s k \<noteq> None \<longrightarrow> session_state s' k \<noteq> None))"

subsection \<open>Example tables\<close>

text \<open>
  Concrete inputs on which the builders are evaluated below. \<open>sample_lib\<close> stands in for
  the library functions: it prints the integer part of a number and takes the exact mean.
\<close>

definition sample_mean :: "cell list \<Rightarrow> error + cell" where
  "sample_mean cs =
     (let qs = concat (map (\<lambda>c. case c of Num q \<Rightarrow> [q] | _ \<Rightarrow> []) cs)
      in if qs = [] then Inr NaN else Inr (Num (sum_list qs / of_nat (length qs))))"

definition sample_lib :: pylib where
  "sample_lib =
     \<lparr>fmt_num = (\<lambda>q. str_nat (nat \<lfloor>q\<rfloor>)),
      series_mean = sample_mean,
      fmt_3g = (\<lambda>c. case c of Num q \<Rightarrow> str_nat (nat \<lfloor>q\<rfloor>) | _ \<Rightarrow> ''nan''),
      re_search = str_in\<rparr>"

definition sample_films :: frame where
  "sample_films =
     \<lparr>columns = [''id'', ''title'', ''duration'', ''press rating'', ''spectator rating'',
                 ''genres''],
      rows =
        [[(''id'', Num 11), (''title'', Str ''Alien''), (''duration'', Num 90),
          (''press rating'', NaN), (''spectator rating'', Num 4), (''genres'', Str ''13,7'')],
         [(''id'', Num 12), (''title'', Str ''Brazil''), (''duration'', Num 120),
          (''press rating'', Num 3), (''spectator rating'', Num 4), (''genres'', Str ''7'')],
         [(''id'', Num 13), (''title'', Str ''Casino''), (''duration'', Num 90),
          (''press rating'', Num 3), (''spectator rating'', Num 5), (''genres'', Str ''13'')]]\<rparr>"

definition sample_duration_fig :: "(hist_row list) bar_fig" where
  "sample_duration_fig =
     \<lparr>bf_data = [\<lparr>hr_x = Num 90, hr_number = 2,
                  hr_hover_text = ''Duration: 90<br>Films: 2<br>Alien<br>Casino''\<rparr>,
                 \<lparr>hr_x = Num 120, hr_number = 1,
                  hr_hover_text = ''Duration: 120<br>Films: 1<br>Brazil''\<rparr>],
      bf_x = ''duration'', bf_y = ''number'', bf_title = ''Films by duration'',
      bf_height = 500, bf_hover_name = ''hover_text'', bf_xaxis_title = ''Duration'',
      bf_yaxis_title = ''Number of films'', bf_tickangle = None, bf_vline = None,
      bf_xaxis_range = None\<rparr>"

definition sample_rating_fig :: "(hist_row list) bar_fig" where
  "sample_rating_fig =
     \<lparr>bf_data = [\<lparr>hr_x = Num 3, hr_number = 2,
                  hr_hover_text = ''Press Rating: 3<br>Films: 2<br>Brazil<br>Casino''\<rparr>],
      bf_x = ''press rating'', bf_y = ''number'', bf_title = ''Films by press rating'',
      bf_height = 400, bf_hover_name = ''hover_text'', bf_xaxis_title = ''Press Rating'',
      bf_yaxis_title = ''Number of films'', bf_tickangle = None, bf_vline = None,
      bf_xaxis_range = Some (0, 5)\<rparr>"

definition sample_scatter_fig :: scatter_fig where
  "sample_scatter_fig =
     \<lparr>sf_data = [((Num 3, Num 4), 1), ((Num 3, Num 5), 1)],
      sf_x = ''press rating'', sf_y = ''spectator rating'', sf_size = ''number'',
      sf_size_max = 5, sf_title = ''Spectator ratings in function of press ratings'',
      sf_hover_name = ''number'', sf_height = 400, sf_xaxis_range = (0, 5),
      sf_yaxis_range = (0, 5), sf_xaxis_title = ''Press Rating'',
      sf_yaxis_title = ''Spectator Rating''\<rparr>"

definition sample_awards :: frame where
  "sample_awards =
     \<lparr>columns = [''award'', ''id'', ''title''],
      rows =
        [[(''award'', Str ''Palme''), (''id'', Num 12), (''title'', Str ''Brazil'')],
         [(''award'', Str ''Palme''), (''id'', Num 99), (''title'', Str ''Zelig'')],
         [(''award'', Str ''Palme''), (''id'', Num 13), (''title'', Str ''Casino'')]]\<rparr>"

definition sample_award_fig :: pie_fig where
  "sample_award_fig =
     \<lparr>pf_data =
        [\<lparr>pr_category = ''Watched'', pr_number = 2,
          pr_hover_text = ''Number: 2<br>Brazil<br>Casino''\<rparr>,
         \<lparr>pr_category = ''Not watched'', pr_number = 1,
          pr_hover_text = ''Number: 1<br>Zelig''\<rparr>],
      pf_values = ''number'', pf_names = ''category'', pf_hole = 6 / 10,
      pf_title = ''Watched Palmes'', pf_hover_name = ''hover_text''\<rparr>"

definition sample_years :: frame where
  "sample_years =
     \<lparr>columns = [''title'', ''year''],
      rows =
        [[(''title'', Str ''F1''), (''year'', Num 2000)],
         [(''title'', Str ''F2''), (''year'', Num 2000)],
         [(''title'', Str ''F3''), (''year'', Num 2000)],
         [(''title'', Str ''F4''), (''year'', Num 2000)],
         [(''title'', Str ''F5''), (''year'', Num 2000)],
         [(''title'', Str ''F6''), (''year'', Num 2000)],
         [(''title'', Str ''F7''), (''year'', Num 2000)]]\<rparr>"

definition sample_year_fig :: "(hist_row list) bar_fig" where
  "sample_year_fig =
     \<lparr>bf_data = [\<lparr>hr_x = Num 2000, hr_number = 7,
                  hr_hover_text = ''Year: 2000<br>Films: 7<br>F1<br>F2<br>F3<br>F4<br>F5''\<rparr>],
      bf_x = ''year'', bf_y = ''number'', bf_title = ''Films by year'',
      bf_height = 500, bf_hover_name = ''hover_text'', bf_xaxis_title = ''Year'',
      bf_yaxis_title = ''Number of films'', bf_tickangle = None, bf_vline = None,
      bf_xaxis_range = None\<rparr>"

definition sample_genres :: frame where
  "sample_genres =
     \<lparr>columns = [''genre'', ''id'', ''number''],
      rows =
        [[(''genre'', Str ''Drama''), (''id'', Num 13), (''number'', Num 2)],
         [(''genre'', Str ''Comedy''), (''id'', Num 7), (''number'', Num 2)]]\<rparr>"

definition sample_genre_fig :: "frame bar_fig" where
  "sample_genre_fig =
     \<lparr>bf_data =
        \<lparr>columns = [''genre'', ''id'', ''number'', ''hover_text''],
         rows =
           [[(''hover_text'', Str ''Genre: Drama<br>Films: 2<br>Alien<br>Casino''),
             (''genre'', Str ''Drama''), (''id'', Num 13), (''number'', Num 2)],
            [(''hover_text'', Str ''Genre: Comedy<br>Films: 2<br>Alien<br>Brazil''),
             (''genre'', Str ''Comedy''), (''id'', Num 7), (''number'', Num 2)]]\<rparr>,
      bf_x = ''genre'', bf_y = ''number'', bf_title = ''Films by genre'',
      bf_height = 500, bf_hover_name = ''hover_text'', bf_xaxis_title = ''Genre'',
      bf_yaxis_title = ''Number of films'', bf_tickangle = Some 315, bf_vline = None,
      bf_xaxis_range = None\<rparr>"

definition sample_countries :: frame where
  "sample_countries =
     \<lparr>columns = [''country'', ''number''],
      rows =
        [[(''country'', Str ''Japon''), (''number'', Num 0)],
         [(''country'', Str ''Italie''), (''number'', Num 1)],
         [(''country'', Str ''Chili''), (''number'', Num 0)],
         [(''country'', Str ''France''), (''number'', Num 2)]]\<rparr>"

definition sample_countries_watched :: frame where
  "sample_countries_watched =
     \<lparr>columns = [''country'', ''number''],
      rows =
        [[(''country'', Str ''France''), (''number'', Num 2)],
         [(''country'', Str ''Italie''), (''number'', Num 1)]]\<rparr>"

definition sample_country_fig :: pie_fig where
  "sample_country_fig =
     \<lparr>pf_data =
        [\<lparr>pr_category = ''Watched'', pr_number = 2,
          pr_hover_text = ''Number: 2<br>France<br>Italie''\<rparr>,
         \<lparr>pr_category = ''Not watched'', pr_number = 2,
          pr_hover_text = ''Number: 2<br>Japon<br>Chili''\<rparr>],
      pf_values = ''number'', pf_names = ''category'', pf_hole = 6 / 10,
      pf_title = ''Countries with a watched film'', pf_hover_name = ''hover_text''\<rparr>"

definition sample_api :: "string person_api" where
  "sample_api =
     \<lparr>new_person = (\<lambda>ident. ''P'' @ py_str sample_lib ident),
      get_name = (\<lambda>p. p),
      get_image = (\<lambda>p. p @ ''.jpg'')\<rparr>"

definition sample_persons :: frame where
  "sample_persons =
     \<lparr>columns = [''id'', ''number''],
      rows =
        [[(''id'', Num 3), (''number'', Num 8)],
         [(''id'', Num 5), (''number'', Num 6)],
         [(''id'', Num 8), (''number'', Num 4)]]\<rparr>"

definition sample_persons_twice :: frame where
  "sample_persons_twice =
     \<lparr>columns = [''id'', ''number''],
      rows =
        [[(''id'', Num 3), (''number'', Num 8)],
         [(''id'', Num 5), (''number'', Num 6)],
         [(''id'', Num 3), (''number'', Num 8)]]\<rparr>"

definition fresh_run :: "string run" where
  "fresh_run = \<lparr>session_state = Map.empty, constructed = [], widgets = [], outcome = Running\<rparr>"

definition cached_run :: "string run" where
  "cached_run =
     \<lparr>session_state = [''person_3'' \<mapsto> ''Bob''], constructed = [], widgets = [],
      outcome = Running\<rparr>"

definition drawn_run :: "string run" where
  "drawn_run =
     \<lparr>session_state = [''person_3'' \<mapsto> ''Bob''], constructed = [],
      widgets = [Button ''Bob''], outcome = Running\<rparr>"

section \<open>Properties\<close>

subsection \<open>Auxiliary facts\<close>

lemmas table_defs = column_def cell_at_def cell_eq_def select_def row_get_def

lemmas text_defs = py_str_def py_title_def to_upper_def to_lower_def is_cased_def
  ascii_lower_def ascii_upper_def digit_char_def str_nat.simps py_or_def

lemma map_err_length: "map_err f xs = Inr ys \<Longrightarrow> length ys = length xs"
  by (induction xs arbitrary: ys) (auto split: sum.splits)

lemma map_err_nth:
  "map_err f xs = Inr ys \<Longrightarrow> i < length xs \<Longrightarrow> f (xs ! i) = Inr (ys ! i)"
proof (induction xs arbitrary: ys i)
  case Nil
  then show ?case by simp
next
  case (Cons x xs)
  then show ?case
    by (cases i) (auto split: sum.splits)
qed

lemma mset_insert_by: "mset (insert_by lt k xs) = add_mset k (mset xs)"
  by (induction xs) auto

lemma mset_sort_by: "mset (sort_by lt ks) = mset ks"
  unfolding sort_by_def by (induction ks) (auto simp: mset_insert_by)

lemma sum_list_sort_by: "sum_list (map f (sort_by lt ks)) = (sum_list (map f ks) :: nat)"
proof -
  have "sum_mset (image_mset f (mset (sort_by lt ks))) = sum_mset (image_mset f (mset ks))"
    by (simp add: mset_sort_by)
  then show ?thesis
    by (simp only: sum_mset_sum_list mset_map [symmetric])
qed

lemma sum_count_remdups: "sum_list (map (count_list xs) (remdups xs)) = length xs"
proof -
  have "sum_list (map (count_list xs) (remdups xs)) = sum (count_list xs) (set (remdups xs))"
    by (rule sum_list_distinct_conv_sum_set) simp
  also have "\<dots> = length xs"
    by (simp add: sum_count_set)
  finally show ?thesis .
qed

lemma sum_group_sizes:
  "sum_list (map snd (group_sizes lt missing keys)) = length (filter (\<lambda>k. \<not> missing k) keys)"
  by (simp add: group_sizes_def Let_def comp_def sum_list_sort_by sum_count_remdups)

lemma zip_two_columns: "zip (map f xs) (map g xs) = map (\<lambda>x. (f x, g x)) xs"
  by (induction xs) auto

lemma groupby_size_sum:
  assumes "groupby_size df value = Inr g"
  shows "sum_list (map snd g) = length (filter (\<lambda>r. cell_at r value \<noteq> NaN) (rows df))"
proof -
  from assms have g:
    "g = group_sizes cell_less (\<lambda>c. c = NaN) (map (\<lambda>r. cell_at r value) (rows df))"
    by (auto simp: groupby_size_def column_def split: if_splits)
  show ?thesis
    unfolding g sum_group_sizes by (simp add: filter_map comp_def)
qed

lemma groupby_size2_sum:
  assumes "groupby_size2 df a b = Inr g"
  shows "sum_list (map snd g) =
         length (filter (\<lambda>r. cell_at r a \<noteq> NaN \<and> cell_at r b \<noteq> NaN) (rows df))"
proof -
  from assms have g: "g = group_sizes pair_less (\<lambda>p. fst p = NaN \<or> snd p = NaN)
       (zip (map (\<lambda>r. cell_at r a) (rows df)) (map (\<lambda>r. cell_at r b) (rows df)))"
    by (auto simp: groupby_size2_def column_def split: if_splits)
  have z: "zip (map (\<lambda>r. cell_at r a) (rows df)) (map (\<lambda>r. cell_at r b) (rows df))
           = map (\<lambda>r. (cell_at r a, cell_at r b)) (rows df)"
    by (rule zip_two_columns)
  show ?thesis
    unfolding g sum_group_sizes z by (simp add: filter_map comp_def)
qed

text \<open>The figure of the numeric histogram carries the count table, row for row.\<close>

lemma hist_numbers_counts:
  assumes "create_hist_numbers lib df value mean t = Inr fig"
  shows "\<exists>g. groupby_size df value = Inr g
           \<and> map hr_number (bf_data fig) = map snd g
           \<and> (value \<noteq> ''hover_text'' \<longrightarrow> map hr_x (bf_data fig) = map fst g)"
proof -
  from assms obtain g where g: "groupby_size df value = Inr g"
    by (auto simp: create_hist_numbers_def split: sum.splits)
  from assms g obtain hovers where
    h: "map_err (hist_numbers_hover lib df value g) (map fst g) = Inr hovers"
    by (auto simp: create_hist_numbers_def split: sum.splits)
  from assms g h obtain line where l: "mean_line lib df value mean = Inr line"
    by (auto simp: create_hist_numbers_def split: sum.splits)
  have len: "length hovers = length g"
    using map_err_length [OF h] by simp
  have data: "bf_data fig =
      map (\<lambda>(g, h). \<lparr>hr_x = (if value = ''hover_text'' then Str h else fst g),
                      hr_number = snd g, hr_hover_text = h\<rparr>) (zip g hovers)"
    using assms g h l by (auto simp: create_hist_numbers_def)
  have "map hr_number (bf_data fig) = map snd g"
    unfolding data using len
    by (induction g hovers rule: list_induct2') auto
  moreover have "value \<noteq> ''hover_text'' \<longrightarrow> map hr_x (bf_data fig) = map fst g"
    unfolding data using len
    by (induction g hovers rule: list_induct2') auto
  ultimately show ?thesis using g by blast
qed

lemma starts_with_iff: "starts_with p s \<longleftrightarrow> (\<exists>q. s = p @ q)"
  by (induction p s rule: starts_with.induct) auto

lemma str_in_iff: "str_in sub s \<longleftrightarrow> (\<exists>p q. s = p @ sub @ q)"
proof (induction s)
  case Nil
  then show ?case by auto
next
  case (Cons c cs)
  show ?case
  proof
    assume "str_in sub (c # cs)"
    then consider "starts_with sub (c # cs)" | "str_in sub cs" by auto
    then show "\<exists>p q. c # cs = p @ sub @ q"
    proof cases
      case 1
      then obtain q where "c # cs = sub @ q" unfolding starts_with_iff ..
      then have "c # cs = [] @ sub @ q" by simp
      then show ?thesis by blast
    next
      case 2
      with Cons obtain p q where "cs = p @ sub @ q" by blast
      then have "c # cs = (c # p) @ sub @ q" by simp
      then show ?thesis by blast
    qed
  next
    assume "\<exists>p q. c # cs = p @ sub @ q"
    then obtain p q where pq: "c # cs = p @ sub @ q" by blast
    show "str_in sub (c # cs)"
    proof (cases p)
      case Nil
      with pq have "starts_with sub (c # cs)" unfolding starts_with_iff by auto
      then show ?thesis by simp
    next
      case (Cons d p')
      with pq have "cs = p' @ sub @ q" by simp
      with Cons.IH have "str_in sub cs" by blast
      then show ?thesis by simp
    qed
  qed
qed

text \<open>The builders on the example table.\<close>

lemma sample_hist_duration:
  "create_hist_numbers sample_lib sample_films ''duration'' False None = Inr sample_duration_fig"
  by (simp add: create_hist_numbers_def sample_films_def sample_lib_def groupby_size_def
      group_sizes_def sort_by_def hist_numbers_hover_def mean_line_def table_defs text_defs
      sample_duration_fig_def)

lemma sample_hist_rating:
  "create_hist_numbers sample_lib sample_films ''press rating'' False None = Inr sample_rating_fig"
  by (simp add: create_hist_numbers_def sample_films_def sample_lib_def groupby_size_def
      group_sizes_def sort_by_def hist_numbers_hover_def mean_line_def table_defs text_defs
      sample_rating_fig_def)

lemma sample_scatter:
  "create_scatter_ratings sample_films = Inr sample_scatter_fig"
  by (simp add: create_scatter_ratings_def groupby_size2_def sample_films_def group_sizes_def
      sort_by_def table_defs pair_less_def sample_scatter_fig_def)

lemma sample_groupby_press:
  "groupby_size sample_films ''press rating'' = Inr [(Num 3, 2)]"
  by (simp add: sample_films_def groupby_size_def group_sizes_def sort_by_def table_defs)

lemma sample_duration_column:
  "column sample_films ''duration'' = Inr [Num 90, Num 120, Num 90]"
  by (simp add: sample_films_def table_defs)

lemmas pie_defs = create_progression_def watched_awards_def not_watched_awards_def
  progression_pie_def tooltip_def isin_def create_progression_countries_def

lemma tooltip_text:
  "tooltip lib xs = ''Number: '' @ str_nat (length xs) @ ''<br>''
                    @ join ''<br>'' (map (py_str lib) (take 5 xs))"
  by (simp add: tooltip_def py_or_def)

lemma select_partition:
  "mset (rows (select p df)) + mset (rows (select (\<lambda>r. \<not> p r) df)) = mset (rows df)"
  by (simp add: select_def)

lemma select_lengths:
  "length (rows (select p df)) + length (rows (select (\<lambda>r. \<not> p r) df)) = length (rows df)"
  using arg_cong [OF select_partition, of size p df] by simp

lemma column_length: "column df c = Inr xs \<Longrightarrow> length xs = length (rows df)"
  by (auto simp: column_def split: if_splits)

lemma cell_eq_num: "cell_eq c (Num q) \<longleftrightarrow> c = Num q"
  by (auto simp: cell_eq_def)

lemma the_strs_py_str: "the_strs cs = Inr ts \<Longrightarrow> ts = map (py_str lib) cs"
proof (induction cs arbitrary: ts)
  case Nil
  then show ?case by simp
next
  case (Cons c cs)
  then show ?case
    by (cases c) (auto simp: py_str_def split: sum.splits)
qed

lemma set_sort_by: "set (sort_by lt ks) = set ks"
  using mset_sort_by [of lt ks] by (metis set_mset_mset)

lemma distinct_sort_by: "distinct (sort_by lt ks) = distinct ks"
  using mset_sort_by [of lt ks] by (metis mset_eq_imp_distinct_iff)

lemma group_sizes_keys:
  "distinct (map fst (group_sizes lt missing keys))"
  "set (map fst (group_sizes lt missing keys)) = {k \<in> set keys. \<not> missing k}"
  by (auto simp: group_sizes_def Let_def comp_def distinct_sort_by set_sort_by)

lemma groupby_size_keys:
  assumes "groupby_size df value = Inr g"
  shows "distinct (map fst g)" and "NaN \<notin> set (map fst g)"
proof -
  from assms obtain keys where g: "g = group_sizes cell_less (\<lambda>c. c = NaN) keys"
    by (auto simp: groupby_size_def split: sum.splits if_splits)
  show "distinct (map fst g)" unfolding g by (rule group_sizes_keys)
  show "NaN \<notin> set (map fst g)" unfolding g group_sizes_keys by simp
qed

lemma first_with_key:
  "distinct (map fst g) \<Longrightarrow> i < length g \<Longrightarrow> filter (\<lambda>x. fst x = fst (g ! i)) g = [g ! i]"
proof (induction g arbitrary: i)
  case Nil
  then show ?case by simp
next
  case (Cons x g)
  show ?case
  proof (cases i)
    case 0
    from Cons.prems have "\<forall>y \<in> set g. fst y \<noteq> fst x" by (force simp: image_iff)
    then have "filter (\<lambda>y. fst y = fst x) g = []" by (simp add: filter_empty_conv)
    with 0 show ?thesis by simp
  next
    case (Suc j)
    with Cons.prems have j: "j < length g" and d: "distinct (map fst g)" by auto
    from Cons.prems j have "fst x \<noteq> fst (g ! j)"
      by (metis distinct.simps(2) list.simps(9) nth_map nth_mem length_map)
    with Cons.IH [OF d j] Suc show ?thesis by simp
  qed
qed

lemma cell_at_set_cell: "cell_at (set_cell c v r) c = v"
  by (simp add: cell_at_def set_cell_def)

lemma assign_column_nth:
  "length vs = length (rows df) \<Longrightarrow> i < length (rows df) \<Longrightarrow>
   rows (assign_column df c vs) ! i = set_cell c (vs ! i) (rows df ! i)"
  by (simp add: assign_column_def)

lemma contains_mask_length: "contains_mask lib pat cs = Inr hits \<Longrightarrow> length hits = length cs"
  unfolding contains_mask_def by (rule map_err_length)

lemma person_key_not_person: "person_key lib ident \<noteq> ''person''"
  by (simp add: person_key_def)

lemma sample_progression:
  "create_progression sample_lib sample_awards ''Watched Palmes'' sample_films
     = Inr sample_award_fig"
  by (simp add: pie_defs sample_awards_def sample_films_def sample_lib_def
      sample_award_fig_def table_defs text_defs)

lemma sample_hist_year:
  "create_hist_numbers sample_lib sample_years ''year'' False None = Inr sample_year_fig"
  by (simp add: create_hist_numbers_def sample_years_def sample_lib_def groupby_size_def
      group_sizes_def sort_by_def hist_numbers_hover_def mean_line_def table_defs text_defs
      sample_year_fig_def)

lemma sample_groupby_year:
  "groupby_size sample_years ''year'' = Inr [(Num 2000, 7)]"
  by (simp add: sample_years_def groupby_size_def group_sizes_def sort_by_def table_defs)

lemma sample_hist_genre:
  "create_hist_categories sample_lib sample_genres ''genre'' sample_films ''id''
     = Inr sample_genre_fig"
  by (simp add: create_hist_categories_def plural_def hist_categories_hover_def
      contains_mask_def assign_column_def set_cell_def sample_genres_def sample_films_def
      sample_lib_def sample_genre_fig_def table_defs text_defs)

lemma sample_home_countries:
  "home_countries sample_countries = Inr ([Str ''Japon'', Str ''Chili''], sample_countries_watched)"
  by (simp add: home_countries_def sort_values_desc_def sort_by_def desc_before_def
      is_num_def is_str_def sample_countries_def sample_countries_watched_def table_defs)

lemma sample_progression_countries:
  "create_progression_countries sample_lib sample_countries_watched [Str ''Japon'', Str ''Chili'']
     = Inr sample_country_fig"
  by (simp add: pie_defs sample_countries_watched_def sample_lib_def
      sample_country_fig_def table_defs text_defs)

text \<open>The two loops of the person grid visit every position once, in order.\<close>

lemma grid_row: "filter (\<lambda>k. k < n) (map (\<lambda>j. q * 3 + j) [0..<3]) = [q * 3..<min n (q * 3 + 3)]"
proof -
  have three: "[0..<3] = [0, 1, 2]" by (simp add: upt_rec)
  consider "n \<le> q * 3" | "n = q * 3 + 1" | "n = q * 3 + 2" | "q * 3 + 3 \<le> n" by linarith
  then show ?thesis
  proof cases
    case 1
    then show ?thesis by (simp add: three)
  next
    case 2
    then show ?thesis by (simp add: three upt_rec)
  next
    case 3
    then show ?thesis by (simp add: three upt_rec [of "q * 3"] upt_rec [of "Suc (q * 3)"])
  next
    case 4
    then have "min n (q * 3 + 3) = q * 3 + 3" by simp
    with 4 show ?thesis
      by (simp add: three upt_rec [of "q * 3"] upt_rec [of "Suc (q * 3)"]
          upt_rec [of "Suc (Suc (q * 3))"])
  qed
qed

lemma grid_prefix:
  "m * 3 \<le> n + 2 \<Longrightarrow>
   concat (map (\<lambda>i. filter (\<lambda>k. k < n) (map (\<lambda>j. i + j) [0..<3])) (map (\<lambda>q. q * 3) [0..<m]))
     = [0..<min n (m * 3)]"
proof (induction m)
  case 0
  then show ?case by simp
next
  case (Suc m)
  then have le: "m * 3 \<le> n" and ih: "m * 3 \<le> n + 2" by simp_all
  have "concat (map (\<lambda>i. filter (\<lambda>k. k < n) (map (\<lambda>j. i + j) [0..<3]))
           (map (\<lambda>q. q * 3) [0..<Suc m]))
        = [0..<min n (m * 3)] @ [m * 3..<min n (m * 3 + 3)]"
    using Suc.IH [OF ih] grid_row [of n m] by (simp add: comp_def)
  also have "\<dots> = [0..<min n (Suc m * 3)]"
  proof -
    have "min n (m * 3) = m * 3" using le by simp
    moreover obtain k where k: "min n (m * 3 + 3) = m * 3 + k"
      using le by (metis le_add1 le_iff_add min.boundedI)
    moreover have "[0..<m * 3 + k] = [0..<m * 3] @ [m * 3..<m * 3 + k]"
      by (rule upt_add_eq_append) simp
    moreover have "Suc m * 3 = m * 3 + 3" by simp
    ultimately show ?thesis by (simp only:)
  qed
  finally show ?case .
qed

lemma grid_positions_upt: "grid_positions n = [0..<n]"
proof -
  have "(n + 2) div 3 * 3 \<le> n + 2" by simp
  from grid_prefix [OF this] have "grid_positions n = [0..<min n ((n + 2) div 3 * 3)]"
    by (simp add: grid_positions_def)
  moreover have "n \<le> (n + 2) div 3 * 3" by presburger
  ultimately show ?thesis by (simp add: min_def)
qed

lemma grid3: "grid_positions 3 = [0, 1, 2]"
  by (simp add: grid_positions_def upt_rec)

lemma grid3': "grid_positions (Suc (Suc (Suc 0))) = [0, 1, 2]"
  using grid3 by (simp add: numeral_3_eq_3)

lemma sample_reruns_constructed:
  "constructed (reruns sample_lib sample_api
       [(sample_persons, \<lambda>label. False), (sample_persons, \<lambda>label. label = ''P5'')] fresh_run)
     = [Num 3, Num 5, Num 8]"
  by (simp add: create_persons_def grid3' sample_persons_def fresh_run_def person_cell_def
      cache_person_def person_key_def sample_api_def sample_lib_def Let_def
      row_get_def cell_at_def py_str_def digit_char_def str_nat.simps)

lemma sample_twice_constructed:
  "constructed (create_persons sample_lib sample_api (\<lambda>label. False) sample_persons_twice
       fresh_run) = [Num 3, Num 5]"
  by (simp add: create_persons_def grid3' sample_persons_twice_def fresh_run_def
      person_cell_def cache_person_def person_key_def sample_api_def sample_lib_def Let_def
      row_get_def cell_at_def py_str_def digit_char_def str_nat.simps)

lemma sample_twice_outcome:
  "outcome (create_persons sample_lib sample_api (\<lambda>label. False) sample_persons_twice
       fresh_run) = Raised DuplicateElementId"
  by (simp add: create_persons_def grid3' sample_persons_twice_def fresh_run_def
      person_cell_def cache_person_def person_key_def sample_api_def sample_lib_def Let_def
      row_get_def cell_at_def py_str_def digit_char_def str_nat.simps)

lemma sample_person_key: "person_key sample_lib (Num 3) = ''person_3''"
  by (simp add: person_key_def sample_lib_def py_str_def str_nat.simps digit_char_def)

subsection \<open>Group and count\<close>

text \<open>
  C1 (as stated it fails): the claim says that the per-group counts always sum to the
  number of rows of the films table. A film without press rating belongs to no group of
  the press-rating histogram: on the example table, three rows give one group of two.
\<close>

theorem missing_rating_not_counted:
  "groupby_size sample_films ''press rating'' = Inr [(Num 3, 2)]
   \<and> sum_list (map snd [(Num 3, 2 :: nat)]) \<noteq> length (rows sample_films)"
  by (simp add: sample_groupby_press) (simp add: sample_films_def)

text \<open>
  C1 (amended): for every films table and grouping column on which the aggregation
  succeeds, the per-group counts of the group-and-count step, of the numeric histogram
  and of the rating scatter sum to the number of rows whose grouping key has no missing
  value.
\<close>

theorem group_counts_sum:
  "(groupby_size df value = Inr g \<longrightarrow>
      sum_list (map snd g) = length (filter (\<lambda>r. cell_at r value \<noteq> NaN) (rows df)))
   \<and> (create_hist_numbers lib df value mean t = Inr fig \<longrightarrow>
      sum_list (map hr_number (bf_data fig))
        = length (filter (\<lambda>r. cell_at r value \<noteq> NaN) (rows df)))
   \<and> (create_scatter_ratings df = Inr sfig \<longrightarrow>
      sum_list (map snd (sf_data sfig))
        = length (filter (\<lambda>r. cell_at r ''press rating'' \<noteq> NaN
                              \<and> cell_at r ''spectator rating'' \<noteq> NaN) (rows df)))"
proof (intro conjI impI)
  assume "groupby_size df value = Inr g"
  then show "sum_list (map snd g) = length (filter (\<lambda>r. cell_at r value \<noteq> NaN) (rows df))"
    by (rule groupby_size_sum)
next
  assume "create_hist_numbers lib df value mean t = Inr fig"
  from hist_numbers_counts [OF this] obtain g' where
    "groupby_size df value = Inr g'" "map hr_number (bf_data fig) = map snd g'"
    by blast
  then show "sum_list (map hr_number (bf_data fig))
        = length (filter (\<lambda>r. cell_at r value \<noteq> NaN) (rows df))"
    using groupby_size_sum by simp
next
  assume "create_scatter_ratings df = Inr sfig"
  then have "groupby_size2 df ''press rating'' ''spectator rating'' = Inr (sf_data sfig)"
    by (auto simp: create_scatter_ratings_def split: sum.splits)
  then show "sum_list (map snd (sf_data sfig))
        = length (filter (\<lambda>r. cell_at r ''press rating'' \<noteq> NaN
                              \<and> cell_at r ''spectator rating'' \<noteq> NaN) (rows df))"
    by (rule groupby_size2_sum)
qed

theorem group_counts_sum_witness:
  "groupby_size sample_films ''press rating'' = Inr [(Num 3, 2)]
   \<and> sum_list (map snd [(Num 3, 2 :: nat)])
       = length (filter (\<lambda>r. cell_at r ''press rating'' \<noteq> NaN) (rows sample_films))
   \<and> create_hist_numbers sample_lib sample_films ''press rating'' False None
       = Inr sample_rating_fig
   \<and> sum_list (map hr_number (bf_data sample_rating_fig)) = 2
   \<and> create_scatter_ratings sample_films = Inr sample_scatter_fig
   \<and> sum_list (map snd (sf_data sample_scatter_fig)) = 2
   \<and> length (filter (\<lambda>r. cell_at r ''press rating'' \<noteq> NaN) (rows sample_films)) = 2"
proof -
  note inst = group_counts_sum [of sample_films "''press rating''" "[(Num 3, 2)]" sample_lib
      False None sample_rating_fig sample_scatter_fig]
  have two: "length (filter (\<lambda>r. cell_at r ''press rating'' \<noteq> NaN) (rows sample_films)) = 2"
    by (simp add: sample_films_def cell_at_def)
  have two': "length (filter (\<lambda>r. cell_at r ''press rating'' \<noteq> NaN
                \<and> cell_at r ''spectator rating'' \<noteq> NaN) (rows sample_films)) = 2"
    by (simp add: sample_films_def cell_at_def)
  from inst sample_groupby_press sample_hist_rating sample_scatter two two'
  show ?thesis by simp
qed

text \<open>
  C9: when the duration column of the films table holds 90, 120, 90, the group-and-count
  step of the duration histogram yields two groups, 90 with count 2 and 120 with count 1,
  and these are the bars of every figure the builder returns.
\<close>

theorem duration_histogram_groups:
  assumes "column df_films ''duration'' = Inr [Num 90, Num 120, Num 90]"
  shows "groupby_size df_films ''duration'' = Inr [(Num 90, 2), (Num 120, 1)]
       \<and> (create_hist_numbers lib df_films ''duration'' mean t = Inr fig \<longrightarrow>
            map (\<lambda>r. (hr_x r, hr_number r)) (bf_data fig) = [(Num 90, 2), (Num 120, 1)])"
proof
  show g: "groupby_size df_films ''duration'' = Inr [(Num 90, 2), (Num 120, 1)]"
    using assms by (simp add: groupby_size_def group_sizes_def sort_by_def)
  show "create_hist_numbers lib df_films ''duration'' mean t = Inr fig \<longrightarrow>
            map (\<lambda>r. (hr_x r, hr_number r)) (bf_data fig) = [(Num 90, 2), (Num 120, 1)]"
  proof
    assume "create_hist_numbers lib df_films ''duration'' mean t = Inr fig"
    from hist_numbers_counts [OF this] g
    have n: "map hr_number (bf_data fig) = [2, 1]" and x: "map hr_x (bf_data fig) = [Num 90, Num 120]"
      by auto
    have "map (\<lambda>r. (hr_x r, hr_number r)) (bf_data fig)
          = zip (map hr_x (bf_data fig)) (map hr_number (bf_data fig))"
      by (simp add: zip_two_columns)
    then show "map (\<lambda>r. (hr_x r, hr_number r)) (bf_data fig) = [(Num 90, 2), (Num 120, 1)]"
      unfolding n x by simp
  qed
qed

theorem duration_histogram_groups_witness:
  "column sample_films ''duration'' = Inr [Num 90, Num 120, Num 90]
   \<and> groupby_size sample_films ''duration'' = Inr [(Num 90, 2), (Num 120, 1)]
   \<and> create_hist_numbers sample_lib sample_films ''duration'' False None
       = Inr sample_duration_fig
   \<and> map (\<lambda>r. (hr_x r, hr_number r)) (bf_data sample_duration_fig)
       = [(Num 90, 2), (Num 120, 1)]"
  using duration_histogram_groups [OF sample_duration_column, of sample_lib False None
      sample_duration_fig]
    sample_duration_column sample_hist_duration
  by simp

subsection \<open>Rating histograms\<close>

text \<open>
  C6: every figure that the numeric histogram builder returns for a column whose name
  contains "rating" has its x-axis range set to [0, 5] and the height 400; for any other
  column the range is left unset and the height is the default 500.
\<close>

theorem rating_histogram_layout:
  assumes "create_hist_numbers lib df_films value mean hist_title = Inr fig"
  shows "((\<exists>p s. value = p @ ''rating'' @ s) \<longrightarrow>
            bf_xaxis_range fig = Some (0, 5) \<and> bf_height fig = 400)
       \<and> ((\<nexists>p s. value = p @ ''rating'' @ s) \<longrightarrow>
            bf_xaxis_range fig = None \<and> bf_height fig = 500)"
  using assms unfolding str_in_iff [symmetric]
  by (auto simp: create_hist_numbers_def split: sum.splits)

theorem rating_histogram_layout_witness:
  "create_hist_numbers sample_lib sample_films ''press rating'' False None
     = Inr sample_rating_fig
   \<and> (\<exists>p s. ''press rating'' = p @ ''rating'' @ s)
   \<and> bf_xaxis_range sample_rating_fig = Some (0, 5) \<and> bf_height sample_rating_fig = 400
   \<and> create_hist_numbers sample_lib sample_films ''duration'' False None
     = Inr sample_duration_fig
   \<and> (\<nexists>p s. ''duration'' = p @ ''rating'' @ s)
   \<and> bf_xaxis_range sample_duration_fig = None \<and> bf_height sample_duration_fig = 500"
proof -
  have yes: "\<exists>p s. ''press rating'' = p @ ''rating'' @ s"
    unfolding str_in_iff [symmetric] by simp
  have no: "\<nexists>p s. ''duration'' = p @ ''rating'' @ s"
    unfolding str_in_iff [symmetric] by simp
  from rating_histogram_layout [OF sample_hist_rating] yes
  have "bf_xaxis_range sample_rating_fig = Some (0, 5) \<and> bf_height sample_rating_fig = 400"
    by blast
  moreover from rating_histogram_layout [OF sample_hist_duration] no
  have "bf_xaxis_range sample_duration_fig = None \<and> bf_height sample_duration_fig = 500"
    by blast
  ultimately show ?thesis
    using yes no sample_hist_rating sample_hist_duration by blast
qed

subsection \<open>Plural of the category word\<close>

text \<open>
  C3 (as stated it fails): the claim says that the plural heuristic turns "country" into
  "countrys". The source tests the last character against "y" and then replaces it, so
  the word does not become "countrys".
\<close>

theorem plural_country_not_countrys:
  "plural ''country'' \<noteq> Inr ''countrys''"
  by (simp add: plural_def)

text \<open>
  C3 (amended): the plural heuristic of the categorical histogram builder, applied to
  the word "country", yields "countries".
\<close>

theorem plural_country:
  "plural ''country'' = Inr ''countries''"
  by (simp add: plural_def)

text \<open>
  C7: for every non-empty singular category word the plural is the word followed by "s",
  except when the word ends in "y": then the final "y" is replaced with "ies". The plural
  of "genre" is "genres".
\<close>

theorem plural_rule:
  assumes "w \<noteq> []"
  shows "(\<forall>stem. w = stem @ ''y'' \<longrightarrow> plural w = Inr (stem @ ''ies''))
       \<and> ((\<nexists>stem. w = stem @ ''y'') \<longrightarrow> plural w = Inr (w @ ''s''))
       \<and> plural ''genre'' = Inr ''genres''"
proof (intro conjI allI impI)
  fix stem assume "w = stem @ ''y''"
  then show "plural w = Inr (stem @ ''ies'')"
    by (simp add: plural_def)
next
  assume no_y: "\<nexists>stem. w = stem @ ''y''"
  have "last w \<noteq> CHR ''y''"
  proof
    assume "last w = CHR ''y''"
    with assms have "w = butlast w @ ''y''"
      by (metis append_butlast_last_id)
    with no_y show False by blast
  qed
  with assms show "plural w = Inr (w @ ''s'')"
    by (simp add: plural_def)
next
  show "plural ''genre'' = Inr ''genres''"
    by (simp add: plural_def)
qed

theorem plural_rule_witness:
  "''city'' \<noteq> [] \<and> plural ''city'' = Inr ''cities''
   \<and> ''film'' \<noteq> [] \<and> (\<nexists>stem. ''film'' = stem @ ''y'') \<and> plural ''film'' = Inr ''films''
   \<and> plural ''genre'' = Inr ''genres''"
proof -
  have city: "''city'' \<noteq> []" and film: "''film'' \<noteq> []"
    by simp_all
  have no_y: "\<nexists>stem. ''film'' = stem @ ''y''"
  proof
    assume "\<exists>stem. ''film'' = stem @ ''y''"
    then obtain stem where "''film'' = stem @ ''y''" ..
    then have "last ''film'' = last (stem @ ''y'')" by simp
    then show False by simp
  qed
  have "''city'' = ''cit'' @ ''y''" by simp
  with plural_rule [OF city] have "plural ''city'' = Inr (''cit'' @ ''ies'')"
    by blast
  moreover from plural_rule [OF film] no_y have "plural ''film'' = Inr (''film'' @ ''s'')"
    by blast
  moreover from plural_rule [OF film] have "plural ''genre'' = Inr ''genres''"
    by blast
  ultimately show ?thesis using city film no_y by simp
qed

subsection \<open>Tooltips of the progression pies\<close>

text \<open>
  C2 (the code does not do this): the claim says that an empty watched or not-watched list
  gives the hover label "None". The tooltip expression of the two pie builders starts
  with "Number: " whatever the list, so the alternative "None" is never taken: an empty
  list gives "Number: 0<br>", in both slices of a pie and in the country pie of a visitor
  whose not-watched list is empty.
\<close>

theorem tooltip_of_empty_list:
  "tooltip lib [] = ''Number: 0<br>''
   \<and> tooltip lib xs \<noteq> ''None''
   \<and> map pr_hover_text (pf_data (progression_pie lib title [] []))
       = [''Number: 0<br>'', ''Number: 0<br>'']
   \<and> create_progression_countries lib sample_countries_watched []
       = Inr (progression_pie lib ''Countries with a watched film''
                [Str ''France'', Str ''Italie''] [])
   \<and> pr_hover_text (pf_data (progression_pie lib ''Countries with a watched film''
                [Str ''France'', Str ''Italie''] []) ! 1) = ''Number: 0<br>''"
  by (simp add: tooltip_text progression_pie_def str_nat.simps digit_char_def
      create_progression_countries_def sample_countries_watched_def column_def cell_at_def)

subsection \<open>Watched and not-watched awards\<close>

text \<open>
  C4: whenever the award pie is built, the watched and the not-watched rows are a
  disjoint cover of the award table: a row is watched exactly when its identifier occurs
  among the film identifiers and not watched exactly when it does not, the two selections
  together are the award table row for row, and the two numbers of the pie sum to the
  number of award rows.
\<close>

theorem award_partition:
  assumes "create_progression lib df_award title df_films = Inr fig"
  shows "\<exists>w n film_ids.
           watched_awards df_award df_films = Inr w
         \<and> not_watched_awards df_award df_films = Inr n
         \<and> column df_films ''id'' = Inr film_ids
         \<and> map pr_number (pf_data fig) = [length (rows w), length (rows n)]
         \<and> length (rows w) + length (rows n) = length (rows df_award)
         \<and> mset (rows w) + mset (rows n) = mset (rows df_award)
         \<and> (\<forall>r \<in> set (rows df_award).
               (r \<in> set (rows w)) = (cell_at r ''id'' \<in> set film_ids)
             \<and> (r \<in> set (rows n)) = (cell_at r ''id'' \<notin> set film_ids))"
proof -
  from assms obtain w watched n not_watched where
    w: "watched_awards df_award df_films = Inr w" and
    wt: "column w ''title'' = Inr watched" and
    n: "not_watched_awards df_award df_films = Inr n" and
    nt: "column n ''title'' = Inr not_watched" and
    fig: "fig = progression_pie lib title watched not_watched"
    by (auto simp: create_progression_def split: sum.splits)
  from w obtain film_ids where
    ids: "column df_films ''id'' = Inr film_ids" and
    w_def: "w = select (\<lambda>r. isin (cell_at r ''id'') film_ids) df_award"
    by (auto simp: watched_awards_def split: sum.splits)
  from n ids have
    n_def: "n = select (\<lambda>r. \<not> isin (cell_at r ''id'') film_ids) df_award"
    by (auto simp: not_watched_awards_def split: sum.splits)
  have numbers: "map pr_number (pf_data fig) = [length (rows w), length (rows n)]"
    using column_length [OF wt] column_length [OF nt] by (simp add: fig progression_pie_def)
  have total: "length (rows w) + length (rows n) = length (rows df_award)"
    unfolding w_def n_def by (rule select_lengths)
  have cover: "mset (rows w) + mset (rows n) = mset (rows df_award)"
    unfolding w_def n_def by (rule select_partition)
  have each: "\<forall>r \<in> set (rows df_award).
               (r \<in> set (rows w)) = (cell_at r ''id'' \<in> set film_ids)
             \<and> (r \<in> set (rows n)) = (cell_at r ''id'' \<notin> set film_ids)"
    unfolding w_def n_def by (simp add: select_def isin_def)
  from w n ids numbers total cover each show ?thesis
    by (intro exI [of _ w] exI [of _ n] exI [of _ film_ids] conjI)
qed

theorem award_partition_witness:
  "create_progression sample_lib sample_awards ''Watched Palmes'' sample_films
     = Inr sample_award_fig
   \<and> watched_awards sample_awards sample_films
       = Inr (sample_awards\<lparr>rows := [rows sample_awards ! 0, rows sample_awards ! 2]\<rparr>)
   \<and> not_watched_awards sample_awards sample_films
       = Inr (sample_awards\<lparr>rows := [rows sample_awards ! 1]\<rparr>)
   \<and> map pr_number (pf_data sample_award_fig) = [2, 1]
   \<and> length (rows sample_awards) = 3"
proof -
  have w: "watched_awards sample_awards sample_films
       = Inr (sample_awards\<lparr>rows := [rows sample_awards ! 0, rows sample_awards ! 2]\<rparr>)"
    by (simp add: pie_defs sample_awards_def sample_films_def table_defs)
  have n: "not_watched_awards sample_awards sample_films
       = Inr (sample_awards\<lparr>rows := [rows sample_awards ! 1]\<rparr>)"
    by (simp add: pie_defs sample_awards_def sample_films_def table_defs)
  from award_partition [OF sample_progression]
  obtain w' n' where w': "watched_awards sample_awards sample_films = Inr w'"
    and n': "not_watched_awards sample_awards sample_films = Inr n'"
    and numbers: "map pr_number (pf_data sample_award_fig) = [length (rows w'), length (rows n')]"
    and total: "length (rows w') + length (rows n') = length (rows sample_awards)"
    by (elim exE conjE)
  from w w' have "length (rows w') = 2" by auto
  moreover from n n' have "length (rows n') = 1" by auto
  ultimately have "map pr_number (pf_data sample_award_fig) = [2, 1]"
    and "length (rows sample_awards) = 3"
    using numbers total by simp_all
  with w n sample_progression show ?thesis by (intro conjI)
qed

subsection \<open>Example titles in hover texts\<close>

lemma hist_numbers_hover_text:
  assumes g: "groupby_size df value = Inr g" and i: "i < length g"
    and h: "hist_numbers_hover lib df value g (fst (g ! i)) = Inr text"
  shows "shows_first_five lib text
           (py_title value @ '': '' @ py_str lib (fst (g ! i)) @ ''<br>Films: ''
            @ str_nat (snd (g ! i)) @ ''<br>'')
           (titles_where df (\<lambda>r. cell_eq (cell_at r value) (fst (g ! i))))"
proof -
  from groupby_size_keys [OF g] i have nn: "fst (g ! i) \<noteq> NaN"
    by (metis length_map nth_map nth_mem)
  have "filter (\<lambda>x. cell_eq (fst x) (fst (g ! i))) g = filter (\<lambda>x. fst x = fst (g ! i)) g"
    using nn by (intro filter_cong) (auto simp: cell_eq_def)
  also have "\<dots> = [g ! i]"
    using groupby_size_keys(1) [OF g] i by (rule first_with_key)
  finally have look: "filter (\<lambda>x. cell_eq (fst x) (fst (g ! i))) g = [g ! i]" .
  from h look obtain ts where
    ts: "the_strs (take 5 (titles_where df (\<lambda>r. cell_eq (cell_at r value) (fst (g ! i))))) = Inr ts"
    and shape: "text = py_title value @ '': '' @ py_str lib (fst (g ! i)) @ ''<br>Films: ''
                         @ str_nat (snd (g ! i)) @ ''<br>'' @ join ''<br>'' ts"
    by (auto simp: hist_numbers_hover_def titles_where_def column_def select_def
        split: sum.splits if_splits)
  from the_strs_py_str [OF ts] shape show ?thesis
    by (simp add: shows_first_five_def)
qed

lemma hist_numbers_five:
  assumes "create_hist_numbers lib df value mean t = Inr fig"
  shows "\<exists>g. groupby_size df value = Inr g \<and> length (bf_data fig) = length g
          \<and> (\<forall>i < length g.
                shows_first_five lib (hr_hover_text (bf_data fig ! i))
                  (py_title value @ '': '' @ py_str lib (fst (g ! i)) @ ''<br>Films: ''
                   @ str_nat (snd (g ! i)) @ ''<br>'')
                  (titles_where df (\<lambda>r. cell_eq (cell_at r value) (fst (g ! i)))))"
proof -
  from assms obtain g where g: "groupby_size df value = Inr g"
    by (auto simp: create_hist_numbers_def split: sum.splits)
  from assms g obtain hovers where
    h: "map_err (hist_numbers_hover lib df value g) (map fst g) = Inr hovers"
    by (auto simp: create_hist_numbers_def split: sum.splits)
  from assms g h obtain line where l: "mean_line lib df value mean = Inr line"
    by (auto simp: create_hist_numbers_def split: sum.splits)
  have len: "length hovers = length g"
    using map_err_length [OF h] by simp
  have data: "bf_data fig =
      map (\<lambda>(g, h). \<lparr>hr_x = (if value = ''hover_text'' then Str h else fst g),
                      hr_number = snd g, hr_hover_text = h\<rparr>) (zip g hovers)"
    using assms g h l by (auto simp: create_hist_numbers_def)
  have "shows_first_five lib (hr_hover_text (bf_data fig ! i))
                  (py_title value @ '': '' @ py_str lib (fst (g ! i)) @ ''<br>Films: ''
                   @ str_nat (snd (g ! i)) @ ''<br>'')
                  (titles_where df (\<lambda>r. cell_eq (cell_at r value) (fst (g ! i))))"
    if i: "i < length g" for i
  proof -
    from map_err_nth [OF h, of i] i
    have "hist_numbers_hover lib df value g (fst (g ! i)) = Inr (hovers ! i)" by simp
    from hist_numbers_hover_text [OF g i this]
    show ?thesis using i len by (simp add: data)
  qed
  with g data len show ?thesis by auto
qed

lemma hist_categories_hover_text:
  assumes "hist_categories_hover lib categories pw df_films id_col df_categories r = Inr text"
  shows "\<exists>cs hits.
           column df_films pw = Inr cs
         \<and> contains_mask lib (py_str lib (cell_at r id_col)) cs = Inr hits
         \<and> shows_first_five lib text
             (py_title categories @ '': '' @ py_str lib (cell_at r categories) @ ''<br>Films: ''
              @ py_str lib (cell_at r ''number'') @ ''<br>'')
             (map (\<lambda>r. cell_at r ''title'') (map fst (filter snd (zip (rows df_films) hits))))"
proof -
  from assms obtain cs hits ts where
    cs: "column df_films pw = Inr cs" and
    hits: "contains_mask lib (py_str lib (cell_at r id_col)) cs = Inr hits" and
    ts: "the_strs (take 5 (map (\<lambda>r. cell_at r ''title'')
            (map fst (filter snd (zip (rows df_films) hits))))) = Inr ts" and
    shape: "text = py_title categories @ '': '' @ py_str lib (cell_at r categories)
              @ ''<br>Films: '' @ py_str lib (cell_at r ''number'') @ ''<br>'' @ join ''<br>'' ts"
    by (auto simp: hist_categories_hover_def row_get_def column_def
        split: sum.splits if_splits)
  from the_strs_py_str [OF ts] shape
  have "shows_first_five lib text
             (py_title categories @ '': '' @ py_str lib (cell_at r categories) @ ''<br>Films: ''
              @ py_str lib (cell_at r ''number'') @ ''<br>'')
             (map (\<lambda>r. cell_at r ''title'') (map fst (filter snd (zip (rows df_films) hits))))"
    by (simp add: shows_first_five_def)
  with cs hits show ?thesis by blast
qed

lemma hist_categories_five:
  assumes "create_hist_categories lib df_categories categories df_films id_col = Inr fig"
  shows "\<exists>pw. plural categories = Inr pw
          \<and> length (rows (bf_data fig)) = length (rows df_categories)
          \<and> (\<forall>i < length (rows df_categories). \<exists>text cs hits.
                cell_at (rows (bf_data fig) ! i) ''hover_text'' = Str text
              \<and> column df_films pw = Inr cs
              \<and> contains_mask lib (py_str lib (cell_at (rows df_categories ! i) id_col)) cs
                  = Inr hits
              \<and> shows_first_five lib text
                  (py_title categories @ '': ''
                   @ py_str lib (cell_at (rows df_categories ! i) categories) @ ''<br>Films: ''
                   @ py_str lib (cell_at (rows df_categories ! i) ''number'') @ ''<br>'')
                  (map (\<lambda>r. cell_at r ''title'')
                     (map fst (filter snd (zip (rows df_films) hits)))))"
proof -
  from assms obtain pw where pw: "plural categories = Inr pw"
    by (auto simp: create_hist_categories_def split: sum.splits)
  from assms pw obtain hovers where
    h: "map_err (hist_categories_hover lib categories pw df_films id_col df_categories)
          (rows df_categories) = Inr hovers"
    by (auto simp: create_hist_categories_def split: sum.splits)
  have len: "length hovers = length (rows df_categories)"
    by (rule map_err_length [OF h])
  have data: "bf_data fig = assign_column df_categories ''hover_text'' (map Str hovers)"
    using assms pw h by (auto simp: create_hist_categories_def Let_def split: if_splits)
  have n: "length (rows (bf_data fig)) = length (rows df_categories)"
    unfolding data using len by (simp add: assign_column_def)
  have "\<exists>text cs hits.
                cell_at (rows (bf_data fig) ! i) ''hover_text'' = Str text
              \<and> column df_films pw = Inr cs
              \<and> contains_mask lib (py_str lib (cell_at (rows df_categories ! i) id_col)) cs
                  = Inr hits
              \<and> shows_first_five lib text
                  (py_title categories @ '': ''
                   @ py_str lib (cell_at (rows df_categories ! i) categories) @ ''<br>Films: ''
                   @ py_str lib (cell_at (rows df_categories ! i) ''number'') @ ''<br>'')
                  (map (\<lambda>r. cell_at r ''title'')
                     (map fst (filter snd (zip (rows df_films) hits))))"
    if i: "i < length (rows df_categories)" for i
  proof -
    have "cell_at (rows (bf_data fig) ! i) ''hover_text'' = Str (hovers ! i)"
      unfolding data using i len by (simp add: assign_column_nth cell_at_set_cell)
    moreover from map_err_nth [OF h i]
    have "hist_categories_hover lib categories pw df_films id_col df_categories
            (rows df_categories ! i) = Inr (hovers ! i)" .
    from hist_categories_hover_text [OF this] obtain cs hits where
      "column df_films pw = Inr cs"
      "contains_mask lib (py_str lib (cell_at (rows df_categories ! i) id_col)) cs = Inr hits"
      "shows_first_five lib (hovers ! i)
                  (py_title categories @ '': ''
                   @ py_str lib (cell_at (rows df_categories ! i) categories) @ ''<br>Films: ''
                   @ py_str lib (cell_at (rows df_categories ! i) ''number'') @ ''<br>'')
                  (map (\<lambda>r. cell_at r ''title'')
                     (map fst (filter snd (zip (rows df_films) hits))))"
      by blast
    ultimately show ?thesis by blast
  qed
  with pw n show ?thesis by blast
qed

lemma tooltip_five:
  "shows_first_five lib (tooltip lib xs) (''Number: '' @ str_nat (length xs) @ ''<br>'') xs"
  by (simp add: shows_first_five_def tooltip_text)

lemma progression_five:
  assumes "create_progression lib df_award title df_films = Inr fig"
  shows "\<exists>w n watched not_watched.
           watched_awards df_award df_films = Inr w \<and> column w ''title'' = Inr watched
         \<and> not_watched_awards df_award df_films = Inr n \<and> column n ''title'' = Inr not_watched
         \<and> length (pf_data fig) = 2
         \<and> shows_first_five lib (pr_hover_text (pf_data fig ! 0))
             (''Number: '' @ str_nat (length watched) @ ''<br>'') watched
         \<and> shows_first_five lib (pr_hover_text (pf_data fig ! 1))
             (''Number: '' @ str_nat (length not_watched) @ ''<br>'') not_watched"
proof -
  from assms obtain w watched n not_watched where
    "watched_awards df_award df_films = Inr w" "column w ''title'' = Inr watched"
    "not_watched_awards df_award df_films = Inr n" "column n ''title'' = Inr not_watched"
    "fig = progression_pie lib title watched not_watched"
    by (auto simp: create_progression_def split: sum.splits)
  then show ?thesis
    using tooltip_five [of lib watched] tooltip_five [of lib not_watched]
    by (simp add: progression_pie_def)
qed

lemma progression_countries_five:
  assumes "create_progression_countries lib df_countries countries_not_watched = Inr fig"
  shows "\<exists>watched.
           column df_countries ''country'' = Inr watched
         \<and> length (pf_data fig) = 2
         \<and> shows_first_five lib (pr_hover_text (pf_data fig ! 0))
             (''Number: '' @ str_nat (length watched) @ ''<br>'') watched
         \<and> shows_first_five lib (pr_hover_text (pf_data fig ! 1))
             (''Number: '' @ str_nat (length countries_not_watched) @ ''<br>'')
             countries_not_watched"
proof -
  from assms obtain watched where
    "column df_countries ''country'' = Inr watched"
    "fig = progression_pie lib ''Countries with a watched film'' watched countries_not_watched"
    by (auto simp: create_progression_countries_def split: sum.splits)
  then show ?thesis
    using tooltip_five [of lib watched] tooltip_five [of lib countries_not_watched]
    by (simp add: progression_pie_def)
qed

text \<open>
  C5: in every figure a builder returns, the hover text of a group is its header followed
  by the first five titles of the group and no more, however many rows the group has:
  for each value of the numeric histogram, for each row of the categorical histogram and
  for both slices of the award pie and of the country pie.
\<close>

theorem hover_text_at_most_five:
  "(create_hist_numbers lib df_films value mean t = Inr fig \<longrightarrow>
      (\<exists>g. groupby_size df_films value = Inr g \<and> length (bf_data fig) = length g
         \<and> (\<forall>i < length g.
               shows_first_five lib (hr_hover_text (bf_data fig ! i))
                 (py_title value @ '': '' @ py_str lib (fst (g ! i)) @ ''<br>Films: ''
                  @ str_nat (snd (g ! i)) @ ''<br>'')
                 (titles_where df_films (\<lambda>r. cell_eq (cell_at r value) (fst (g ! i)))))))
   \<and> (create_hist_categories lib df_categories categories df_films id_col = Inr cfig \<longrightarrow>
      (\<exists>pw. plural categories = Inr pw
          \<and> length (rows (bf_data cfig)) = length (rows df_categories)
          \<and> (\<forall>i < length (rows df_categories). \<exists>text cs hits.
                cell_at (rows (bf_data cfig) ! i) ''hover_text'' = Str text
              \<and> column df_films pw = Inr cs
              \<and> contains_mask lib (py_str lib (cell_at (rows df_categories ! i) id_col)) cs
                  = Inr hits
              \<and> shows_first_five lib text
                  (py_title categories @ '': ''
                   @ py_str lib (cell_at (rows df_categories ! i) categories) @ ''<br>Films: ''
                   @ py_str lib (cell_at (rows df_categories ! i) ''number'') @ ''<br>'')
                  (map (\<lambda>r. cell_at r ''title'')
                     (map fst (filter snd (zip (rows df_films) hits)))))))
   \<and> (create_progression lib df_award title df_films = Inr pfig \<longrightarrow>
      (\<exists>w n watched not_watched.
           watched_awards df_award df_films = Inr w \<and> column w ''title'' = Inr watched
         \<and> not_watched_awards df_award df_films = Inr n \<and> column n ''title'' = Inr not_watched
         \<and> length (pf_data pfig) = 2
         \<and> shows_first_five lib (pr_hover_text (pf_data pfig ! 0))
             (''Number: '' @ str_nat (length watched) @ ''<br>'') watched
         \<and> shows_first_five lib (pr_hover_text (pf_data pfig ! 1))
             (''Number: '' @ str_nat (length not_watched) @ ''<br>'') not_watched))
   \<and> (create_progression_countries lib df_countries countries_not_watched = Inr qfig \<longrightarrow>
      (\<exists>watched.
           column df_countries ''country'' = Inr watched
         \<and> length (pf_data qfig) = 2
         \<and> shows_first_five lib (pr_hover_text (pf_data qfig ! 0))
             (''Number: '' @ str_nat (length watched) @ ''<br>'') watched
         \<and> shows_first_five lib (pr_hover_text (pf_data qfig ! 1))
             (''Number: '' @ str_nat (length countries_not_watched) @ ''<br>'')
             countries_not_watched))"
  by (rule conjI, rule impI, erule hist_numbers_five,
      rule conjI, rule impI, erule hist_categories_five,
      rule conjI, rule impI, erule progression_five,
      rule impI, erule progression_countries_five)

theorem hover_text_at_most_five_witness:
  "create_hist_numbers sample_lib sample_years ''year'' False None = Inr sample_year_fig
   \<and> length (titles_where sample_years (\<lambda>r. cell_eq (cell_at r ''year'') (Num 2000))) = 7
   \<and> shows_first_five sample_lib (hr_hover_text (bf_data sample_year_fig ! 0))
       (py_title ''year'' @ '': '' @ py_str sample_lib (Num 2000) @ ''<br>Films: ''
        @ str_nat 7 @ ''<br>'')
       (titles_where sample_years (\<lambda>r. cell_eq (cell_at r ''year'') (Num 2000)))
   \<and> hr_hover_text (bf_data sample_year_fig ! 0)
       = ''Year: 2000<br>Films: 7<br>F1<br>F2<br>F3<br>F4<br>F5''
   \<and> create_hist_categories sample_lib sample_genres ''genre'' sample_films ''id''
       = Inr sample_genre_fig
   \<and> length (rows (bf_data sample_genre_fig)) = length (rows sample_genres)
   \<and> create_progression sample_lib sample_awards ''Watched Palmes'' sample_films
       = Inr sample_award_fig
   \<and> length (pf_data sample_award_fig) = 2
   \<and> create_progression_countries sample_lib sample_countries_watched
         [Str ''Japon'', Str ''Chili''] = Inr sample_country_fig
   \<and> length (pf_data sample_country_fig) = 2"
proof -
  from hover_text_at_most_five [THEN conjunct1, THEN mp, OF sample_hist_year]
  obtain g where g: "groupby_size sample_years ''year'' = Inr g"
    and each: "\<forall>i < length g.
          shows_first_five sample_lib (hr_hover_text (bf_data sample_year_fig ! i))
            (py_title ''year'' @ '': '' @ py_str sample_lib (fst (g ! i))
             @ ''<br>Films: '' @ str_nat (snd (g ! i)) @ ''<br>'')
            (titles_where sample_years (\<lambda>r. cell_eq (cell_at r ''year'') (fst (g ! i))))"
    by (elim exE conjE)
  from g sample_groupby_year have g_eq: "g = [(Num 2000, 7)]" by simp
  from each [unfolded g_eq, THEN spec, of 0]
  have year: "shows_first_five sample_lib (hr_hover_text (bf_data sample_year_fig ! 0))
       (py_title ''year'' @ '': '' @ py_str sample_lib (Num 2000) @ ''<br>Films: ''
        @ str_nat 7 @ ''<br>'')
       (titles_where sample_years (\<lambda>r. cell_eq (cell_at r ''year'') (Num 2000)))"
    by simp
  have seven: "length (titles_where sample_years (\<lambda>r. cell_eq (cell_at r ''year'') (Num 2000))) = 7"
    by (simp add: titles_where_def sample_years_def table_defs)
  have txt5: "hr_hover_text (bf_data sample_year_fig ! 0)
       = ''Year: 2000<br>Films: 7<br>F1<br>F2<br>F3<br>F4<br>F5''"
    by (simp add: sample_year_fig_def)
  from hover_text_at_most_five [THEN conjunct2, THEN conjunct1, THEN mp, OF sample_hist_genre]
  have genre: "length (rows (bf_data sample_genre_fig)) = length (rows sample_genres)"
    by (elim exE conjE)
  from hover_text_at_most_five [THEN conjunct2, THEN conjunct2, THEN conjunct1, THEN mp,
      OF sample_progression]
  have award: "length (pf_data sample_award_fig) = 2"
    by (elim exE conjE)
  from hover_text_at_most_five [THEN conjunct2, THEN conjunct2, THEN conjunct2, THEN mp,
      OF sample_progression_countries]
  have country: "length (pf_data sample_country_fig) = 2"
    by (elim exE conjE)
  from sample_hist_year seven year txt5 sample_hist_genre genre sample_progression award
    sample_progression_countries country
  show ?thesis by (intro conjI)
qed

subsection \<open>The cache of persons\<close>

lemma cache_grows_refl: "cache_grows lib api s s"
  by (simp add: cache_grows_def)

lemma cache_grows_same:
  "session_state t = session_state s \<Longrightarrow> constructed t = constructed s \<Longrightarrow> cache_grows lib api s t"
  by (simp add: cache_grows_def)

lemma cache_grows_trans:
  assumes a: "cache_grows lib api s t" and b: "cache_grows lib api t u"
  shows "cache_grows lib api s u"
proof -
  from a obtain n1 where n1: "constructed t = constructed s @ n1" "distinct n1"
    "\<forall>ident \<in> set n1. session_state s (person_key lib ident) = None
               \<and> session_state t (person_key lib ident) = Some (new_person api ident)"
    and keep1: "\<forall>k v. k \<noteq> ''person'' \<longrightarrow> session_state s k = Some v \<longrightarrow> session_state t k = Some v"
    and dom1: "\<forall>k. session_state s k \<noteq> None \<longrightarrow> session_state t k \<noteq> None"
    unfolding cache_grows_def by blast
  from b obtain n2 where n2: "constructed u = constructed t @ n2" "distinct n2"
    "\<forall>ident \<in> set n2. session_state t (person_key lib ident) = None
               \<and> session_state u (person_key lib ident) = Some (new_person api ident)"
    and keep2: "\<forall>k v. k \<noteq> ''person'' \<longrightarrow> session_state t k = Some v \<longrightarrow> session_state u k = Some v"
    and dom2: "\<forall>k. session_state t k \<noteq> None \<longrightarrow> session_state u k \<noteq> None"
    unfolding cache_grows_def by blast
  have c: "constructed u = constructed s @ (n1 @ n2)"
    using n1(1) n2(1) by simp
  have disj: "set n1 \<inter> set n2 = {}"
  proof (rule ccontr)
    assume "set n1 \<inter> set n2 \<noteq> {}"
    then obtain ident where "ident \<in> set n1" "ident \<in> set n2" by blast
    with n1(3) n2(3) show False by fastforce
  qed
  have d: "distinct (n1 @ n2)"
    using n1(2) n2(2) disj by simp
  have e: "\<forall>ident \<in> set (n1 @ n2).
                 session_state s (person_key lib ident) = None
               \<and> session_state u (person_key lib ident) = Some (new_person api ident)"
  proof
    fix ident assume "ident \<in> set (n1 @ n2)"
    then consider "ident \<in> set n1" | "ident \<in> set n2" by auto
    then show "session_state s (person_key lib ident) = None
               \<and> session_state u (person_key lib ident) = Some (new_person api ident)"
    proof cases
      case 1
      with n1(3) keep2 person_key_not_person [of lib ident] show ?thesis by blast
    next
      case 2
      with n2(3) dom1 show ?thesis by blast
    qed
  qed
  have keep: "\<forall>k v. k \<noteq> ''person'' \<longrightarrow> session_state s k = Some v \<longrightarrow> session_state u k = Some v"
    using keep1 keep2 by blast
  have dom: "\<forall>k. session_state s k \<noteq> None \<longrightarrow> session_state u k \<noteq> None"
    using dom1 dom2 by blast
  from c d e keep dom show ?thesis
    unfolding cache_grows_def by blast
qed

lemma cache_person_grows: "cache_grows lib api s (cache_person lib api ident s)"
proof (cases "session_state s (person_key lib ident)")
  case None
  then have "cache_person lib api ident s =
      s\<lparr>session_state := (session_state s)(person_key lib ident \<mapsto> new_person api ident),
        constructed := constructed s @ [ident]\<rparr>"
    by (simp add: cache_person_def)
  with None show ?thesis
    unfolding cache_grows_def by (auto intro!: exI [of _ "[ident]"])
next
  case (Some cached)
  then show ?thesis by (simp add: cache_person_def cache_grows_refl)
qed

lemma store_person_grows:
  "session_state t = (session_state s)(''person'' \<mapsto> p) \<Longrightarrow> constructed t = constructed s \<Longrightarrow>
   cache_grows lib api s t"
  by (simp add: cache_grows_def person_key_not_person)

lemma person_cell_grows: "cache_grows lib api s (person_cell lib api clicked people r s)"
proof (cases "row_get people r ''id''")
  case (Inl e)
  then show ?thesis by (simp add: person_cell_def cache_grows_same)
next
  case (Inr ident)
  define s1 where "s1 = cache_person lib api ident s"
  have g1: "cache_grows lib api s s1"
    unfolding s1_def by (rule cache_person_grows)
  show ?thesis
  proof (cases "session_state s1 (person_key lib ident)")
    case None
    with Inr have "person_cell lib api clicked people r s = s1\<lparr>outcome := Raised KeyError\<rparr>"
      by (simp add: person_cell_def s1_def)
    moreover have "cache_grows lib api s1 (s1\<lparr>outcome := Raised KeyError\<rparr>)"
      by (simp add: cache_grows_same)
    ultimately show ?thesis using g1 cache_grows_trans by metis
  next
    case (Some person)
    have "cache_grows lib api s1 (person_cell lib api clicked people r s)"
    proof (cases "Button (get_name api person) \<in> set (widgets s1)")
      case True
      with Inr Some show ?thesis
        by (auto simp: person_cell_def s1_def [symmetric] Let_def intro!: cache_grows_same)
    next
      case fresh: False
      show ?thesis
      proof (cases "row_get people r ''number''")
        case (Inl e)
        with Inr Some fresh show ?thesis
          by (auto simp: person_cell_def s1_def [symmetric] Let_def intro!: cache_grows_same)
      next
        case number: (Inr number)
        show ?thesis
        proof (cases "clicked (get_name api person)")
          case True
          with Inr Some fresh number show ?thesis
            by (auto simp: person_cell_def s1_def [symmetric] Let_def
                intro!: store_person_grows [where p = person])
        next
          case False
          with Inr Some fresh number show ?thesis
            by (auto simp: person_cell_def s1_def [symmetric] Let_def intro!: cache_grows_same)
        qed
      qed
    qed
    with g1 show ?thesis by (rule cache_grows_trans)
  qed
qed

lemma fold_grows:
  assumes "\<And>x s. cache_grows lib api s (f x s)"
  shows "cache_grows lib api s (fold f xs s)"
proof (induction xs arbitrary: s)
  case Nil
  show ?case by (simp add: cache_grows_refl)
next
  case (Cons x xs)
  have "cache_grows lib api s (f x s)" by (rule assms)
  moreover have "cache_grows lib api (f x s) (fold f xs (f x s))" by (rule Cons.IH)
  ultimately show ?case by (simp add: cache_grows_trans)
qed

lemma create_persons_grows:
  "cache_grows lib api s (create_persons lib api clicked df_persons s)"
  unfolding create_persons_def Let_def
  by (rule fold_grows) (simp add: person_cell_grows cache_grows_refl)

lemma reruns_grows: "cache_grows lib api s (reruns lib api rs s)"
proof (induction rs arbitrary: s)
  case Nil
  show ?case by (simp add: cache_grows_refl)
next
  case (Cons r rs)
  obtain df clicked where r: "r = (df, clicked)" by (cases r)
  have "cache_grows lib api s (s\<lparr>widgets := [], outcome := Running\<rparr>)"
    by (simp add: cache_grows_same)
  then have "cache_grows lib api s
      (create_persons lib api clicked df (s\<lparr>widgets := [], outcome := Running\<rparr>))"
    using create_persons_grows by (rule cache_grows_trans)
  then show ?case
    unfolding r reruns.simps using Cons.IH by (rule cache_grows_trans)
qed

lemma person_cell_reuse:
  assumes "row_get people r ''id'' = Inr ident"
    and "session_state s (person_key lib ident) = Some cached"
  shows "constructed (person_cell lib api clicked people r s) = constructed s
       \<and> session_state (person_cell lib api clicked people r s) (person_key lib ident) = Some cached
       \<and> (Button (get_name api cached) \<notin> set (widgets s) \<longrightarrow>
            take (Suc (length (widgets s))) (widgets (person_cell lib api clicked people r s))
              = widgets s @ [Button (get_name api cached)])
       \<and> (Button (get_name api cached) \<in> set (widgets s) \<longrightarrow>
            widgets (person_cell lib api clicked people r s) = widgets s
          \<and> outcome (person_cell lib api clicked people r s) = Raised DuplicateElementId)"
  using assms person_key_not_person [of lib ident]
  by (cases "row_get people r ''number''")
     (simp_all add: person_cell_def cache_person_def Let_def)

lemma person_cell_construct:
  assumes "row_get people r ''id'' = Inr ident"
    and "session_state s (person_key lib ident) = None"
  shows "constructed (person_cell lib api clicked people r s) = constructed s @ [ident]
       \<and> session_state (person_cell lib api clicked people r s) (person_key lib ident)
           = Some (new_person api ident)"
  using assms person_key_not_person [of lib ident]
  by (cases "row_get people r ''number''")
     (simp_all add: person_cell_def cache_person_def Let_def)

text \<open>
  C8: the person grid calls \<open>Person\<close> for an identifier only when the session state has
  no entry under the key of that identifier, and then stores the object under the key;
  when there is an entry, the grid builds nothing, leaves the entry as it is and draws the
  button of the cached object, unless a button with that label is already on the page:
  then the run ends with the framework's exception and nothing is drawn. Over one
  drawing of the grid and over any sequence of runs of a visit, each identifier is built
  at most once, and an entry of the cache is never overwritten.
\<close>

theorem person_cache:
  "cache_grows lib api s (create_persons lib api clicked df_persons s)
   \<and> cache_grows lib api s (reruns lib api rs s)
   \<and> (constructed s = [] \<longrightarrow> distinct (constructed (reruns lib api rs s)))
   \<and> (row_get people r ''id'' = Inr ident \<longrightarrow>
        session_state s (person_key lib ident) = Some cached \<longrightarrow>
          constructed (person_cell lib api clicked people r s) = constructed s
        \<and> session_state (person_cell lib api clicked people r s) (person_key lib ident)
            = Some cached
        \<and> (Button (get_name api cached) \<notin> set (widgets s) \<longrightarrow>
             take (Suc (length (widgets s))) (widgets (person_cell lib api clicked people r s))
               = widgets s @ [Button (get_name api cached)])
        \<and> (Button (get_name api cached) \<in> set (widgets s) \<longrightarrow>
             widgets (person_cell lib api clicked people r s) = widgets s
           \<and> outcome (person_cell lib api clicked people r s) = Raised DuplicateElementId))
   \<and> (row_get people r ''id'' = Inr ident \<longrightarrow>
        session_state s (person_key lib ident) = None \<longrightarrow>
          constructed (person_cell lib api clicked people r s) = constructed s @ [ident]
        \<and> session_state (person_cell lib api clicked people r s) (person_key lib ident)
            = Some (new_person api ident))"
proof -
  have one: "cache_grows lib api s (create_persons lib api clicked df_persons s)"
    by (rule create_persons_grows)
  have many: "cache_grows lib api s (reruns lib api rs s)"
    by (rule reruns_grows)
  have once: "constructed s = [] \<longrightarrow> distinct (constructed (reruns lib api rs s))"
  proof
    assume "constructed s = []"
    with many show "distinct (constructed (reruns lib api rs s))"
      unfolding cache_grows_def by auto
  qed
  have reuse: "row_get people r ''id'' = Inr ident \<longrightarrow>
        session_state s (person_key lib ident) = Some cached \<longrightarrow>
          constructed (person_cell lib api clicked people r s) = constructed s
        \<and> session_state (person_cell lib api clicked people r s) (person_key lib ident)
            = Some cached
        \<and> (Button (get_name api cached) \<notin> set (widgets s) \<longrightarrow>
             take (Suc (length (widgets s))) (widgets (person_cell lib api clicked people r s))
               = widgets s @ [Button (get_name api cached)])
        \<and> (Button (get_name api cached) \<in> set (widgets s) \<longrightarrow>
             widgets (person_cell lib api clicked people r s) = widgets s
           \<and> outcome (person_cell lib api clicked people r s) = Raised DuplicateElementId)"
    by (intro impI) (rule person_cell_reuse)
  have build: "row_get people r ''id'' = Inr ident \<longrightarrow>
        session_state s (person_key lib ident) = None \<longrightarrow>
          constructed (person_cell lib api clicked people r s) = constructed s @ [ident]
        \<and> session_state (person_cell lib api clicked people r s) (person_key lib ident)
            = Some (new_person api ident)"
    by (intro impI) (rule person_cell_construct)
  from one many once reuse build show ?thesis by (intro conjI)
qed

theorem person_cache_witness:
  "constructed fresh_run = []
   \<and> constructed (reruns sample_lib sample_api
        [(sample_persons, \<lambda>label. False), (sample_persons, \<lambda>label. label = ''P5'')] fresh_run)
       = [Num 3, Num 5, Num 8]
   \<and> distinct (constructed (reruns sample_lib sample_api
        [(sample_persons, \<lambda>label. False), (sample_persons, \<lambda>label. label = ''P5'')] fresh_run))
   \<and> cache_grows sample_lib sample_api fresh_run
        (create_persons sample_lib sample_api (\<lambda>label. False) sample_persons_twice fresh_run)
   \<and> constructed (create_persons sample_lib sample_api (\<lambda>label. False) sample_persons_twice
        fresh_run) = [Num 3, Num 5]
   \<and> outcome (create_persons sample_lib sample_api (\<lambda>label. False) sample_persons_twice
        fresh_run) = Raised DuplicateElementId
   \<and> row_get sample_persons (rows sample_persons ! 0) ''id'' = Inr (Num 3)
   \<and> session_state cached_run (person_key sample_lib (Num 3)) = Some ''Bob''
   \<and> Button (get_name sample_api ''Bob'') \<notin> set (widgets cached_run)
   \<and> constructed (person_cell sample_lib sample_api (\<lambda>label. False) sample_persons
        (rows sample_persons ! 0) cached_run) = []
   \<and> take 1 (widgets (person_cell sample_lib sample_api (\<lambda>label. False) sample_persons
        (rows sample_persons ! 0) cached_run)) = [Button ''Bob'']
   \<and> session_state drawn_run (person_key sample_lib (Num 3)) = Some ''Bob''
   \<and> Button (get_name sample_api ''Bob'') \<in> set (widgets drawn_run)
   \<and> widgets (person_cell sample_lib sample_api (\<lambda>label. False) sample_persons
        (rows sample_persons ! 0) drawn_run) = [Button ''Bob'']
   \<and> outcome (person_cell sample_lib sample_api (\<lambda>label. False) sample_persons
        (rows sample_persons ! 0) drawn_run) = Raised DuplicateElementId
   \<and> session_state fresh_run (person_key sample_lib (Num 3)) = None
   \<and> constructed (person_cell sample_lib sample_api (\<lambda>label. False) sample_persons
        (rows sample_persons ! 0) fresh_run) = [Num 3]"
proof -
  have empty: "constructed fresh_run = []"
    by (simp add: fresh_run_def)
  have row0: "row_get sample_persons (rows sample_persons ! 0) ''id'' = Inr (Num 3)"
    by (simp add: sample_persons_def row_get_def cell_at_def)
  have hit: "session_state cached_run (person_key sample_lib (Num 3)) = Some ''Bob''"
    by (simp add: sample_person_key cached_run_def)
  have hit': "session_state drawn_run (person_key sample_lib (Num 3)) = Some ''Bob''"
    by (simp add: sample_person_key drawn_run_def)
  have new: "Button (get_name sample_api ''Bob'') \<notin> set (widgets cached_run)"
    by (simp add: cached_run_def)
  have old: "Button (get_name sample_api ''Bob'') \<in> set (widgets drawn_run)"
    by (simp add: drawn_run_def sample_api_def)
  have miss: "session_state fresh_run (person_key sample_lib (Num 3)) = None"
    by (simp add: fresh_run_def)
  from person_cache [where lib = sample_lib and api = sample_api and s = fresh_run
      and rs = "[(sample_persons, \<lambda>label. False), (sample_persons, \<lambda>label. label = ''P5'')]",
      THEN conjunct2, THEN conjunct2, THEN conjunct1, THEN mp, OF empty]
  have once: "distinct (constructed (reruns sample_lib sample_api
        [(sample_persons, \<lambda>label. False), (sample_persons, \<lambda>label. label = ''P5'')] fresh_run))" .
  from person_cache [where lib = sample_lib and api = sample_api and s = fresh_run
      and clicked = "\<lambda>label. False" and df_persons = sample_persons_twice, THEN conjunct1]
  have grows: "cache_grows sample_lib sample_api fresh_run
        (create_persons sample_lib sample_api (\<lambda>label. False) sample_persons_twice fresh_run)" .
  note at_hit = person_cache [where lib = sample_lib and api = sample_api and s = cached_run
      and clicked = "\<lambda>label. False",
      THEN conjunct2, THEN conjunct2, THEN conjunct2, THEN conjunct1, THEN mp, THEN mp,
      OF row0 hit]
  from at_hit have reuse1: "constructed (person_cell sample_lib sample_api (\<lambda>label. False)
        sample_persons (rows sample_persons ! 0) cached_run) = []"
    by (simp add: cached_run_def)
  from at_hit [THEN conjunct2, THEN conjunct2, THEN conjunct1, THEN mp, OF new]
  have reuse2: "take 1 (widgets (person_cell sample_lib sample_api (\<lambda>label. False)
        sample_persons (rows sample_persons ! 0) cached_run)) = [Button ''Bob'']"
    by (simp add: cached_run_def sample_api_def)
  note at_drawn = person_cache [where lib = sample_lib and api = sample_api and s = drawn_run
      and clicked = "\<lambda>label. False",
      THEN conjunct2, THEN conjunct2, THEN conjunct2, THEN conjunct1, THEN mp, THEN mp,
      OF row0 hit', THEN conjunct2, THEN conjunct2, THEN conjunct2, THEN mp, OF old]
  from at_drawn have dup1: "widgets (person_cell sample_lib sample_api (\<lambda>label. False)
        sample_persons (rows sample_persons ! 0) drawn_run) = [Button ''Bob'']"
    by (simp add: drawn_run_def)
  from at_drawn have dup2: "outcome (person_cell sample_lib sample_api (\<lambda>label. False)
        sample_persons (rows sample_persons ! 0) drawn_run) = Raised DuplicateElementId"
    by simp
  from person_cache [where lib = sample_lib and api = sample_api and s = fresh_run
      and clicked = "\<lambda>label. False",
      THEN conjunct2, THEN conjunct2, THEN conjunct2, THEN conjunct2, THEN mp, THEN mp,
      OF row0 miss]
  have build: "constructed (person_cell sample_lib sample_api (\<lambda>label. False) sample_persons
        (rows sample_persons ! 0) fresh_run) = [Num 3]"
    by (simp add: fresh_run_def)
  from empty sample_reruns_constructed once grows sample_twice_constructed
    sample_twice_outcome row0 hit new reuse1 reuse2 hit' old dup1 dup2 miss build
  show ?thesis by (intro conjI)
qed

subsection \<open>Routing of the country rows\<close>

text \<open>
  C10: when the home page has loaded the country table, every row of the file is in
  exactly one of two places according to its count: the rows with count 0 give, by name,
  the list of countries not watched, and the rows with another count are the rows of the
  table that the country charts and the country pie are drawn from; no row is dropped
  and none is in both.
\<close>

theorem country_routing:
  assumes "home_countries csv = Inr (countries_not_watched, df_countries)"
  shows "\<exists>zero. mset zero + mset (rows df_countries) = mset (rows csv)
         \<and> countries_not_watched = map (\<lambda>r. cell_at r ''country'') zero
         \<and> length countries_not_watched + length (rows df_countries) = length (rows csv)
         \<and> (\<forall>r \<in> set (rows csv).
               (cell_at r ''number'' = Num 0 \<longrightarrow> r \<in> set zero \<and> r \<notin> set (rows df_countries))
             \<and> (cell_at r ''number'' \<noteq> Num 0 \<longrightarrow> r \<in> set (rows df_countries) \<and> r \<notin> set zero))"
proof -
  define sorted_rows where "sorted_rows = sort_by (desc_before ''number'') (rows csv)"
  define zero where "zero = filter (\<lambda>r. cell_at r ''number'' = Num 0) sorted_rows"
  from assms obtain s where s: "sort_values_desc csv ''number'' = Inr s"
    and nw0: "column (select (\<lambda>r. cell_eq (cell_at r ''number'') (Num 0)) s) ''country''
               = Inr countries_not_watched"
    and df0: "df_countries = select (\<lambda>r. \<not> cell_eq (cell_at r ''number'') (Num 0)) s"
    by (auto simp: home_countries_def split: sum.splits)
  from s have rs: "rows s = sorted_rows"
    by (auto simp: sort_values_desc_def sorted_rows_def split: sum.splits if_splits)
  from nw0 have nw: "countries_not_watched = map (\<lambda>r. cell_at r ''country'') zero"
    by (auto simp: column_def select_def cell_eq_num zero_def rs split: if_splits)
  from df0 have df: "rows df_countries = filter (\<lambda>r. cell_at r ''number'' \<noteq> Num 0) sorted_rows"
    by (simp add: select_def cell_eq_num rs)
  have perm: "mset sorted_rows = mset (rows csv)"
    unfolding sorted_rows_def by (rule mset_sort_by)
  have cover: "mset zero + mset (rows df_countries) = mset (rows csv)"
    unfolding zero_def df perm [symmetric] by simp
  have total: "length countries_not_watched + length (rows df_countries) = length (rows csv)"
    using arg_cong [OF cover, of size] by (simp add: nw)
  have mem: "set sorted_rows = set (rows csv)"
    using perm by (metis set_mset_mset)
  have each: "\<forall>r \<in> set (rows csv).
               (cell_at r ''number'' = Num 0 \<longrightarrow> r \<in> set zero \<and> r \<notin> set (rows df_countries))
             \<and> (cell_at r ''number'' \<noteq> Num 0 \<longrightarrow> r \<in> set (rows df_countries) \<and> r \<notin> set zero)"
    unfolding zero_def df by (simp add: mem)
  from cover nw total each show ?thesis
    by (intro exI [of _ zero] conjI)
qed

theorem country_routing_witness:
  "home_countries sample_countries
     = Inr ([Str ''Japon'', Str ''Chili''], sample_countries_watched)
   \<and> length [Str ''Japon'', Str ''Chili''] + length (rows sample_countries_watched)
       = length (rows sample_countries)"
proof -
  from country_routing [OF sample_home_countries]
  have "length [Str ''Japon'', Str ''Chili''] + length (rows sample_countries_watched)
       = length (rows sample_countries)"
    by blast
  with sample_home_countries show ?thesis by simp
qed

end
